theory Spec2Isabelle
  imports Main
begin

section \<open>Credential and session lifecycle: the UserLogin model and the auth service\<close>

text \<open>
  A shallow embedding of \<^verbatim>\<open>models/userLogin.model.js\<close> (the Mongoose schema and its
  methods) and of \<^verbatim>\<open>services/auth.service.js\<close> (the use cases built on it).

  Conventions of the embedding:
  \<^item> a \<^verbatim>\<open>Date\<close> is its number of milliseconds since the epoch, an \<open>int\<close>; every
    operation takes the instant \<open>now\<close> at which it runs, and each \<^verbatim>\<open>new Date()\<close> or
    \<^verbatim>\<open>Date.now()\<close> inside one call reads that instant;
  \<^item> a value that may be \<^verbatim>\<open>null\<close> or \<^verbatim>\<open>undefined\<close> is an \<open>option\<close>;
  \<^item> the counters \<^verbatim>\<open>failedLoginAttempts\<close>, \<^verbatim>\<open>lockLevel\<close> and \<^verbatim>\<open>loginCount\<close> are
    natural numbers: the code only ever assigns them a constant or adds one;
  \<^item> an exception is a value: every service function returns \<open>authError + result\<close>
    together with the database it leaves behind (a failed password check saves the
    record before it throws);
  \<^item> the two collections are lists of documents; \<^verbatim>\<open>findOne\<close> returns the first match;
  \<^item> the libraries the code calls (bcryptjs, jsonwebtoken, \<^verbatim>\<open>String.toLowerCase\<close>) are
    the fields of an environment record.
\<close>

subsection \<open>Documents\<close>

type_synonym objectId = nat
type_synonym date = int

text \<open>An element of \<^verbatim>\<open>refreshTokens\<close>: \<^verbatim>\<open>{ token, deviceId, createdAt }\<close>.\<close>

record tokenEntry =
  token :: string
  entryDeviceId :: string
  createdAt :: date

text \<open>An element of a device's \<^verbatim>\<open>loginHistory\<close>.\<close>

record loginHistoryEntry =
  loginAt :: date
  logoutAt :: "date option"

text \<open>An element of \<^verbatim>\<open>loggedInDevices\<close>.\<close>

record device =
  deviceId :: string
  ipAddress :: "string option"
  userAgent :: "string option"
  loginCount :: nat
  refreshToken :: "string option"
  loginHistory :: "loginHistoryEntry list"

text \<open>
  The UserLogin document. \<open>ulId\<close> is the document's own \<^verbatim>\<open>_id\<close>; \<open>user\<close> is
  the reference to the User document.
\<close>

record userLogin =
  ulId :: objectId
  user :: objectId
  username :: string
  password :: string
  refreshTokens :: "tokenEntry list"
  failedLoginAttempts :: nat
  lockLevel :: nat
  lockUntil :: "date option"
  isPermanentlyLocked :: bool
  isLoggedIn :: bool
  lastLogin :: "date option"
  loggedInDevices :: "device list"

text \<open>The fields of the User document that the auth service reads.\<close>

record userDoc =
  uId :: objectId
  userId :: string
  email :: "string option"
  canLogin :: bool
  isActive :: bool

record database =
  userLogins :: "userLogin list"
  users :: "userDoc list"

subsection \<open>Libraries\<close>

datatype jwtError = TokenExpiredError | JsonWebTokenError

text \<open>
  \<open>bcryptCompare env candidate hash\<close> is \<^verbatim>\<open>bcryptjs.compare\<close>; \<open>bcryptHash\<close> is
  \<^verbatim>\<open>genSalt(10)\<close> followed by \<^verbatim>\<open>hash\<close>; \<open>jwtSignAccess env id username now\<close> and
  \<open>jwtSignRefresh env id now\<close> are \<^verbatim>\<open>jwt.sign\<close> on the two payloads with the two
  secrets; \<open>jwtVerifyRefresh env token now\<close> is \<^verbatim>\<open>jwt.verify\<close> with the refresh secret,
  returning the \<^verbatim>\<open>id\<close> of the decoded payload.
\<close>

record env =
  toLowerCase :: "string \<Rightarrow> string"
  bcryptCompare :: "string \<Rightarrow> string \<Rightarrow> bool"
  bcryptHash :: "string \<Rightarrow> string"
  jwtSignAccess :: "objectId \<Rightarrow> string \<Rightarrow> date \<Rightarrow> string"
  jwtSignRefresh :: "objectId \<Rightarrow> date \<Rightarrow> string"
  jwtVerifyRefresh :: "string \<Rightarrow> date \<Rightarrow> jwtError + objectId"

subsection \<open>Errors and results\<close>

text \<open>
  One constructor per message the service throws:
  \<^item> \<open>InvalidCredentials\<close>: "Invalid login credentials" (unknown handle and wrong
    password alike);
  \<^item> \<open>AccountLockedPermanent\<close>: "Account is permanently locked. Contact administrator.";
  \<^item> \<open>AccountLockedTemporary m\<close>: "Account is locked. Try again in m minutes.";
  \<^item> \<open>AssociatedUserNotFound\<close>: "Associated user not found";
  \<^item> \<open>LoginDisabled\<close>: "User is not allowed to login";
  \<^item> \<open>UserNotFound\<close>: "User not found";
  \<^item> \<open>DeviceNotFound\<close>: "Device not found";
  \<^item> \<open>DeviceTokenMismatch\<close>: "Invalid refresh token for this device";
  \<^item> \<open>TokenExpired\<close>: "Refresh token has expired. Please login again.";
  \<^item> \<open>TokenInvalid\<close>: any other error of \<^verbatim>\<open>jwt.verify\<close>, rethrown with its message;
  \<^item> \<open>TokenNotFound\<close>: "Token not found";
  \<^item> \<open>CurrentPasswordIncorrect\<close>: "Current password is incorrect".
\<close>

datatype authError =
    InvalidCredentials
  | AccountLockedPermanent
  | AccountLockedTemporary int
  | AssociatedUserNotFound
  | LoginDisabled
  | UserNotFound
  | DeviceNotFound
  | DeviceTokenMismatch
  | TokenExpired
  | TokenInvalid
  | TokenNotFound
  | CurrentPasswordIncorrect

text \<open>
  What \<^verbatim>\<open>login\<close> returns. \<^verbatim>\<open>forcePasswordChange\<close> is \<^verbatim>\<open>!!userLogin.forcePasswordChange\<close>,
  and the schema has no such path.
\<close>

record loginResult =
  resUser :: userDoc
  resAccessToken :: string
  resRefreshToken :: string
  resForcePasswordChange :: bool
  resDeviceId :: "string option"

record refreshResult =
  newAccessToken :: string
  newRefreshToken :: string

subsection \<open>JavaScript helpers\<close>

text \<open>
  Truthiness of a string that may be missing: \<^verbatim>\<open>null\<close>, \<^verbatim>\<open>undefined\<close> and the empty
  string are falsy. \<open>truthyStr s\<close> is \<open>Some v\<close> exactly when \<open>s\<close> is the truthy
  string \<open>v\<close>.
\<close>

definition truthyStr :: "string option \<Rightarrow> string option" where
  "truthyStr s = (case s of None \<Rightarrow> None | Some v \<Rightarrow> if v = [] then None else Some v)"

text \<open>\<^verbatim>\<open>Math.ceil(a / b)\<close> for integers \<open>a\<close> and a positive \<open>b\<close>.\<close>

definition ceilDiv :: "int \<Rightarrow> int \<Rightarrow> int" where
  "ceilDiv a b = - ((- a) div b)"

text \<open>
  An in-place change of the element \<^verbatim>\<open>Array.find\<close> returned: the first element that
  satisfies the predicate.
\<close>

fun updateFirst :: "('a \<Rightarrow> bool) \<Rightarrow> ('a \<Rightarrow> 'a) \<Rightarrow> 'a list \<Rightarrow> 'a list" where
  "updateFirst P f [] = []"
| "updateFirst P f (x # xs) = (if P x then f x # xs else x # updateFirst P f xs)"

subsection \<open>Queries\<close>

definition findUserLoginByUsername :: "database \<Rightarrow> string \<Rightarrow> userLogin option" where
  "findUserLoginByUsername db name = find (\<lambda>d. username d = name) (userLogins db)"

definition findUserLoginByUser :: "database \<Rightarrow> objectId \<Rightarrow> userLogin option" where
  "findUserLoginByUser db uid = find (\<lambda>d. user d = uid) (userLogins db)"

definition findUserLoginById :: "database \<Rightarrow> objectId \<Rightarrow> userLogin option" where
  "findUserLoginById db i = find (\<lambda>d. ulId d = i) (userLogins db)"

definition findUserByLoginId :: "database \<Rightarrow> string \<Rightarrow> userDoc option" where
  "findUserByLoginId db loginId =
     find (\<lambda>u. userId u = loginId \<or> email u = Some loginId) (users db)"

definition findUserById :: "database \<Rightarrow> objectId \<Rightarrow> userDoc option" where
  "findUserById db i = find (\<lambda>u. uId u = i) (users db)"

subsection \<open>Saving a document\<close>

text \<open>
  The \<^verbatim>\<open>pre("save")\<close> hook: it returns at once unless the path \<^verbatim>\<open>password\<close> is
  modified, and otherwise replaces the password by its salted hash.
\<close>

definition preSaveHook :: "env \<Rightarrow> bool \<Rightarrow> userLogin \<Rightarrow> userLogin" where
  "preSaveHook env isModifiedPassword doc =
     (if \<not> isModifiedPassword then doc
      else doc\<lparr>password := bcryptHash env (password doc)\<rparr>)"

text \<open>
  \<^verbatim>\<open>doc.save()\<close>: the hook runs, then the document replaces the stored one with its
  \<^verbatim>\<open>_id\<close> (the primary key). Every document saved below was loaded from the
  collection. The flag says whether \<^verbatim>\<open>password\<close> was assigned a new value since the
  document was loaded or last saved; the only assignment is in \<open>changePassword\<close>,
  which saves at once, so every other save passes \<open>False\<close>.
\<close>

definition save :: "env \<Rightarrow> bool \<Rightarrow> userLogin \<Rightarrow> database \<Rightarrow> userLogin \<times> database" where
  "save env isModifiedPassword doc db =
     (let d = preSaveHook env isModifiedPassword doc
      in (d, db\<lparr>userLogins := map (\<lambda>x. if ulId x = ulId d then d else x) (userLogins db)\<rparr>))"

subsection \<open>Methods of the UserLogin model\<close>

definition comparePassword :: "env \<Rightarrow> userLogin \<Rightarrow> string \<Rightarrow> bool" where
  "comparePassword env doc candidatePassword = bcryptCompare env candidatePassword (password doc)"

definition generateAccessToken :: "env \<Rightarrow> date \<Rightarrow> userLogin \<Rightarrow> string" where
  "generateAccessToken env now doc = jwtSignAccess env (user doc) (username doc) now"

text \<open>The two branches of \<open>generateRefreshToken\<close> on the device list.\<close>

definition updateExistingDevice ::
  "date \<Rightarrow> string \<Rightarrow> string option \<Rightarrow> string option \<Rightarrow> device \<Rightarrow> device" where
  "updateExistingDevice now tok ip ua dev =
     dev\<lparr>refreshToken := Some tok,
         loginCount := loginCount dev + 1,
         ipAddress := (case truthyStr ip of Some v \<Rightarrow> Some v | None \<Rightarrow> ipAddress dev),
         userAgent := (case truthyStr ua of Some v \<Rightarrow> Some v | None \<Rightarrow> userAgent dev),
         loginHistory := loginHistory dev @ [\<lparr>loginAt = now, logoutAt = None\<rparr>]\<rparr>"

definition newDeviceEntry ::
  "date \<Rightarrow> string \<Rightarrow> string \<Rightarrow> string option \<Rightarrow> string option \<Rightarrow> device" where
  "newDeviceEntry now tok did ip ua =
     \<lparr>deviceId = did, ipAddress = truthyStr ip, userAgent = truthyStr ua,
      loginCount = 1, refreshToken = Some tok,
      loginHistory = [\<lparr>loginAt = now, logoutAt = None\<rparr>]\<rparr>"

text \<open>
  \<open>generateRefreshToken\<close>: sign a token, push it on \<^verbatim>\<open>refreshTokens\<close> (with the
  device id, or "unknown"), store it on the device when a device id was given
  (creating the device when it is new), save, return the token.
\<close>

definition generateRefreshToken ::
  "env \<Rightarrow> date \<Rightarrow> userLogin \<Rightarrow> string option \<Rightarrow> string option \<Rightarrow> string option \<Rightarrow> database
     \<Rightarrow> string \<times> userLogin \<times> database" where
  "generateRefreshToken env now doc devId ip ua db =
     (let tok = jwtSignRefresh env (user doc) now;
          doc1 = doc\<lparr>refreshTokens := refreshTokens doc @
                   [\<lparr>token = tok,
                     entryDeviceId = (case truthyStr devId of Some d \<Rightarrow> d | None \<Rightarrow> ''unknown''),
                     createdAt = now\<rparr>]\<rparr>;
          doc2 = (case truthyStr devId of
                    None \<Rightarrow> doc1
                  | Some did \<Rightarrow>
                      (case find (\<lambda>d. deviceId d = did) (loggedInDevices doc1) of
                         Some dev \<Rightarrow>
                           doc1\<lparr>loggedInDevices :=
                                  updateFirst (\<lambda>d. deviceId d = did)
                                    (updateExistingDevice now tok ip ua) (loggedInDevices doc1)\<rparr>
                       | None \<Rightarrow>
                           doc1\<lparr>loggedInDevices :=
                                  loggedInDevices doc1 @ [newDeviceEntry now tok did ip ua]\<rparr>));
          (doc3, db') = save env False doc2 db
      in (tok, doc3, db'))"

definition verifyRefreshTokenForDevice :: "userLogin \<Rightarrow> string \<Rightarrow> string option \<Rightarrow> bool" where
  "verifyRefreshTokenForDevice doc tok devId =
     (case truthyStr devId of
        None \<Rightarrow> False
      | Some did \<Rightarrow>
          (case find (\<lambda>d. deviceId d = did) (loggedInDevices doc) of
             None \<Rightarrow> False
           | Some dev \<Rightarrow> refreshToken dev = Some tok))"

text \<open>
  Closing a device session: the last history entry gets its \<^verbatim>\<open>logoutAt\<close> when it
  has none, and the device's refresh token is cleared.
\<close>

definition closeLastLogin :: "date \<Rightarrow> loginHistoryEntry list \<Rightarrow> loginHistoryEntry list" where
  "closeLastLogin now h =
     (if h \<noteq> [] then
        (let lastLogin = last h
         in if logoutAt lastLogin = None
            then butlast h @ [lastLogin\<lparr>logoutAt := Some now\<rparr>]
            else h)
      else h)"

definition closeDevice :: "date \<Rightarrow> device \<Rightarrow> device" where
  "closeDevice now dev =
     dev\<lparr>loginHistory := closeLastLogin now (loginHistory dev), refreshToken := None\<rparr>"

definition logoutDevice ::
  "env \<Rightarrow> date \<Rightarrow> userLogin \<Rightarrow> string option \<Rightarrow> database \<Rightarrow> bool \<times> userLogin \<times> database" where
  "logoutDevice env now doc devId db =
     (case truthyStr devId of
        None \<Rightarrow> (False, doc, db)
      | Some did \<Rightarrow>
          (case find (\<lambda>d. deviceId d = did) (loggedInDevices doc) of
             Some dev \<Rightarrow>
               (let doc1 = doc\<lparr>loggedInDevices :=
                                updateFirst (\<lambda>d. deviceId d = did) (closeDevice now)
                                  (loggedInDevices doc)\<rparr>;
                    (doc2, db') = save env False doc1 db
                in (True, doc2, db'))
           | None \<Rightarrow> (False, doc, db)))"

definition logoutAllDevices :: "env \<Rightarrow> date \<Rightarrow> userLogin \<Rightarrow> database \<Rightarrow> userLogin \<times> database" where
  "logoutAllDevices env now doc db =
     save env False
       (doc\<lparr>loggedInDevices := map (closeDevice now) (loggedInDevices doc),
            refreshTokens := []\<rparr>) db"

text \<open>
  \<open>revokeRefreshToken\<close>: \<^verbatim>\<open>refreshTokens\<close> is an array in every document, so the
  method filters, saves and returns \<^verbatim>\<open>true\<close>; its \<^verbatim>\<open>return false\<close> is not reached.
\<close>

definition revokeRefreshToken ::
  "env \<Rightarrow> userLogin \<Rightarrow> string \<Rightarrow> database \<Rightarrow> bool \<times> userLogin \<times> database" where
  "revokeRefreshToken env doc tok db =
     (let doc1 = doc\<lparr>refreshTokens := filter (\<lambda>rt. token rt \<noteq> tok) (refreshTokens doc)\<rparr>;
          (doc2, db') = save env False doc1 db
      in (True, doc2, db'))"

subsection \<open>The auth service\<close>

text \<open>
  Lines 25 to 39 of \<^verbatim>\<open>login\<close>: the UserLogin whose username is the lower-cased login
  id; failing that, the UserLogin of the first User whose \<^verbatim>\<open>userId\<close> or \<^verbatim>\<open>email\<close>
  is the login id.
\<close>

definition resolveLogin :: "env \<Rightarrow> database \<Rightarrow> string \<Rightarrow> userLogin option" where
  "resolveLogin env db loginId =
     (case findUserLoginByUsername db (toLowerCase env loginId) of
        Some ul \<Rightarrow> Some ul
      | None \<Rightarrow>
          (case findUserByLoginId db loginId of
             Some u \<Rightarrow> findUserLoginByUser db (uId u)
           | None \<Rightarrow> None))"

text \<open>
  The temporary-lock test \<^verbatim>\<open>lockUntil && new Date() < lockUntil\<close> and the minutes
  reported with it, \<^verbatim>\<open>Math.ceil((lockUntil - new Date()) / (1000 * 60))\<close>.
\<close>

definition temporarilyLocked :: "userLogin \<Rightarrow> date \<Rightarrow> bool" where
  "temporarilyLocked doc now = (case lockUntil doc of None \<Rightarrow> False | Some t \<Rightarrow> now < t)"

definition remainingTime :: "userLogin \<Rightarrow> date \<Rightarrow> int" where
  "remainingTime doc now =
     (case lockUntil doc of None \<Rightarrow> 0 | Some t \<Rightarrow> ceilDiv (t - now) (1000 * 60))"

text \<open>
  The failure branch of \<^verbatim>\<open>login\<close>: count the attempt (\<^verbatim>\<open>(n || 0) + 1\<close>), and lock
  for 15 minutes from five failures on.
\<close>

definition recordFailedAttempt :: "date \<Rightarrow> userLogin \<Rightarrow> userLogin" where
  "recordFailedAttempt now doc =
     (let doc1 = doc\<lparr>failedLoginAttempts := failedLoginAttempts doc + 1\<rparr>
      in if failedLoginAttempts doc1 \<ge> 5
         then doc1\<lparr>lockLevel := 1, lockUntil := Some (now + 15 * 60 * 1000)\<rparr>
         else doc1)"

definition login ::
  "env \<Rightarrow> date \<Rightarrow> database \<Rightarrow> string \<Rightarrow> string \<Rightarrow> string option \<Rightarrow> string option \<Rightarrow> string option
     \<Rightarrow> (authError + loginResult) \<times> database" where
  "login env now db loginId pw devId ip ua =
     (case resolveLogin env db loginId of
        None \<Rightarrow> (Inl InvalidCredentials, db)
      | Some ul \<Rightarrow>
          if isPermanentlyLocked ul then (Inl AccountLockedPermanent, db)
          else if temporarilyLocked ul now
          then (Inl (AccountLockedTemporary (remainingTime ul now)), db)
          else if \<not> comparePassword env ul pw
          then (Inl InvalidCredentials, snd (save env False (recordFailedAttempt now ul) db))
          else
            (case findUserById db (user ul) of
               None \<Rightarrow> (Inl AssociatedUserNotFound, db)
             | Some u \<Rightarrow>
                 if \<not> canLogin u \<or> \<not> isActive u then (Inl LoginDisabled, db)
                 else
                   (let ul1 = ul\<lparr>failedLoginAttempts := 0, lockLevel := 0, lockUntil := None,
                                 isLoggedIn := True, lastLogin := Some now\<rparr>;
                        accessToken = generateAccessToken env now ul1;
                        (refreshTok, ul2, db') = generateRefreshToken env now ul1 devId ip ua db
                    in (Inr \<lparr>resUser = u, resAccessToken = accessToken,
                             resRefreshToken = refreshTok, resForcePasswordChange = False,
                             resDeviceId = devId\<rparr>, db'))))"

definition logout ::
  "env \<Rightarrow> date \<Rightarrow> database \<Rightarrow> objectId \<Rightarrow> string option \<Rightarrow> (authError + unit) \<times> database" where
  "logout env now db uid devId =
     (case findUserLoginByUser db uid of
        None \<Rightarrow> (Inl UserNotFound, db)
      | Some ul \<Rightarrow>
          (let (logoutSuccess, ul1, db1) = logoutDevice env now ul devId db
           in if \<not> logoutSuccess then (Inl DeviceNotFound, db1)
              else
                (let activeDevices = filter (\<lambda>d. refreshToken d \<noteq> None) (loggedInDevices ul1);
                     ul2 = (if length activeDevices = 0 then ul1\<lparr>isLoggedIn := False\<rparr> else ul1)
                 in (Inr (), snd (save env False ul2 db1)))))"

text \<open>The service's \<^verbatim>\<open>logoutAllDevices(userId)\<close>.\<close>

definition logoutAll :: "env \<Rightarrow> date \<Rightarrow> database \<Rightarrow> objectId \<Rightarrow> (authError + unit) \<times> database" where
  "logoutAll env now db uid =
     (case findUserLoginByUser db uid of
        None \<Rightarrow> (Inl UserNotFound, db)
      | Some ul \<Rightarrow>
          (let (ul1, db1) = logoutAllDevices env now ul db
           in (Inr (), snd (save env False (ul1\<lparr>isLoggedIn := False\<rparr>) db1))))"

text \<open>
  The service's \<^verbatim>\<open>refreshTokens(refreshToken, deviceId)\<close>. The record is looked up
  with \<^verbatim>\<open>UserLogin.findById(decoded.id)\<close>, that is by the UserLogin's own \<^verbatim>\<open>_id\<close>.
\<close>

definition refresh ::
  "env \<Rightarrow> date \<Rightarrow> database \<Rightarrow> string \<Rightarrow> string option \<Rightarrow> (authError + refreshResult) \<times> database" where
  "refresh env now db refreshTok devId =
     (case jwtVerifyRefresh env refreshTok now of
        Inl TokenExpiredError \<Rightarrow> (Inl TokenExpired, db)
      | Inl JsonWebTokenError \<Rightarrow> (Inl TokenInvalid, db)
      | Inr decodedId \<Rightarrow>
          (case findUserLoginById db decodedId of
             None \<Rightarrow> (Inl UserNotFound, db)
           | Some ul \<Rightarrow>
               if \<not> verifyRefreshTokenForDevice ul refreshTok devId
               then (Inl DeviceTokenMismatch, db)
               else
                 (let accessTok = generateAccessToken env now ul;
                      (newTok, ul1, db') = generateRefreshToken env now ul devId None None db
                  in (Inr \<lparr>newAccessToken = accessTok, newRefreshToken = newTok\<rparr>, db'))))"

definition revokeToken :: "env \<Rightarrow> database \<Rightarrow> objectId \<Rightarrow> string \<Rightarrow> (authError + unit) \<times> database" where
  "revokeToken env db uid tok =
     (case findUserLoginByUser db uid of
        None \<Rightarrow> (Inl UserNotFound, db)
      | Some ul \<Rightarrow>
          (let (revoked, ul1, db1) = revokeRefreshToken env ul tok db
           in if \<not> revoked then (Inl TokenNotFound, db1) else (Inr (), db1)))"

definition lockAccount :: "env \<Rightarrow> date \<Rightarrow> database \<Rightarrow> objectId \<Rightarrow> string \<Rightarrow> (authError + string) \<times> database" where
  "lockAccount env now db uid reason =
     (case findUserLoginByUser db uid of
        None \<Rightarrow> (Inl UserNotFound, db)
      | Some ul \<Rightarrow>
          (let (ul1, db1) =
                 logoutAllDevices env now (ul\<lparr>isPermanentlyLocked := True, isLoggedIn := False\<rparr>) db
           in (Inr (''Account locked. Reason: '' @ reason), snd (save env False ul1 db1))))"

definition unlockAccount :: "env \<Rightarrow> database \<Rightarrow> objectId \<Rightarrow> (authError + unit) \<times> database" where
  "unlockAccount env db uid =
     (case findUserLoginByUser db uid of
        None \<Rightarrow> (Inl UserNotFound, db)
      | Some ul \<Rightarrow>
          (Inr (),
           snd (save env False
                  (ul\<lparr>isPermanentlyLocked := False, failedLoginAttempts := 0, lockLevel := 0,
                      lockUntil := None\<rparr>) db)))"

text \<open>
  \<open>changePassword\<close>: the assignment \<^verbatim>\<open>userLogin.password = newPassword\<close> marks the
  path modified when the value differs from the loaded one, and the save that follows
  hashes it; then every device is logged out.
\<close>

definition changePassword ::
  "env \<Rightarrow> date \<Rightarrow> database \<Rightarrow> objectId \<Rightarrow> string \<Rightarrow> string \<Rightarrow> (authError + unit) \<times> database" where
  "changePassword env now db uid oldPassword newPassword =
     (case findUserLoginByUser db uid of
        None \<Rightarrow> (Inl UserNotFound, db)
      | Some ul \<Rightarrow>
          if \<not> comparePassword env ul oldPassword then (Inl CurrentPasswordIncorrect, db)
          else
            (let (ul1, db1) = save env (newPassword \<noteq> password ul) (ul\<lparr>password := newPassword\<rparr>) db;
                 (ul2, db2) = logoutAllDevices env now ul1 db1
             in (Inr (), snd (save env False (ul2\<lparr>isLoggedIn := False\<rparr>) db2))))"

subsection \<open>Sample data\<close>

text \<open>
  A concrete environment and database on which the theorems below are run.
  \<open>asciiLower\<close> is \<^verbatim>\<open>toLowerCase\<close> on ASCII. The hash of a password is the password
  behind a fixed prefix. A token is a letter for its kind, one \<open>u\<close> per unit of the
  identity in its payload, a dot, and one \<open>s\<close> per second of its \<^verbatim>\<open>iat\<close>: like
  \<^verbatim>\<open>jwt.sign\<close>, the signer is a function of the payload and of the time in whole
  seconds. A refresh token expires seven days after its \<^verbatim>\<open>iat\<close>.

  Alice's UserLogin document has an \<^verbatim>\<open>_id\<close> of its own (7), as every UserLogin the
  program creates has; her User document has \<^verbatim>\<open>_id\<close> 1.
\<close>

definition asciiLower :: "string \<Rightarrow> string" where
  "asciiLower s =
     map (\<lambda>c. case map_of (zip ''ABCDEFGHIJKLMNOPQRSTUVWXYZ'' ''abcdefghijklmnopqrstuvwxyz'') c of
                Some l \<Rightarrow> l | None \<Rightarrow> c) s"

definition sampleEnv :: env where
  "sampleEnv =
     \<lparr>toLowerCase = asciiLower,
      bcryptCompare = (\<lambda>candidate hash. hash = ''$2a$'' @ candidate),
      bcryptHash = (\<lambda>pw. ''$2a$'' @ pw),
      jwtSignAccess = (\<lambda>i name t.
         ''a'' @ replicate i (CHR ''u'') @ ''.'' @ replicate (nat (t div 1000)) (CHR ''s'')),
      jwtSignRefresh = (\<lambda>i t.
         ''r'' @ replicate i (CHR ''u'') @ ''.'' @ replicate (nat (t div 1000)) (CHR ''s'')),
      jwtVerifyRefresh = (\<lambda>tok t.
         if take 1 tok \<noteq> ''r'' then Inl JsonWebTokenError
         else if int (length (dropWhile (\<lambda>c. c = CHR ''u'') (drop 1 tok))) - 1 + 7 * 24 * 60 * 60
                   \<le> t div 1000
         then Inl TokenExpiredError
         else Inr (length (takeWhile (\<lambda>c. c = CHR ''u'') (drop 1 tok))))\<rparr>"

definition alice :: userLogin where
  "alice = \<lparr>ulId = 7, user = 1, username = ''alice'', password = ''$2a$p@ss1'',
     refreshTokens = [], failedLoginAttempts = 0, lockLevel = 0, lockUntil = None,
     isPermanentlyLocked = False, isLoggedIn = False, lastLogin = None, loggedInDevices = []\<rparr>"

definition sampleDb :: database where
  "sampleDb = \<lparr>userLogins = [alice],
     users = [\<lparr>uId = 1, userId = ''EMP-1'', email = Some ''alice@example.org'',
               canLogin = True, isActive = True\<rparr>]\<rparr>"

text \<open>Alice with four failures on record and a lock that expired at 500 ms.\<close>

definition staleDb :: database where
  "staleDb = sampleDb\<lparr>userLogins :=
      [alice\<lparr>failedLoginAttempts := 4, lockLevel := 1, lockUntil := Some 500\<rparr>]\<rparr>"

text \<open>The same, with login switched off for Alice's user.\<close>

definition disabledDb :: database where
  "disabledDb = staleDb\<lparr>users :=
      [\<lparr>uId = 1, userId = ''EMP-1'', email = Some ''alice@example.org'',
        canLogin = False, isActive = True\<rparr>]\<rparr>"

text \<open>Alice after \<open>k\<close> failed attempts, and after the fifth one, made at 4000 ms.\<close>

definition failedDb :: "nat \<Rightarrow> database" where
  "failedDb k = sampleDb\<lparr>userLogins := [alice\<lparr>failedLoginAttempts := k\<rparr>]\<rparr>"

definition lockedDb :: database where
  "lockedDb = sampleDb\<lparr>userLogins :=
      [alice\<lparr>failedLoginAttempts := 5, lockLevel := 1, lockUntil := Some 904000\<rparr>]\<rparr>"

text \<open>
  Alice after one login from \<open>dev-A\<close> at 1000 ms (lemma \<open>loggedInDb_by_login\<close>
  below): the refresh token \<open>ru.s\<close> is on the device and in \<^verbatim>\<open>refreshTokens\<close>.
\<close>

definition loggedInDb :: database where
  "loggedInDb = sampleDb\<lparr>userLogins :=
      [alice\<lparr>refreshTokens := [\<lparr>token = ''ru.s'', entryDeviceId = ''dev-A'', createdAt = 1000\<rparr>],
             isLoggedIn := True, lastLogin := Some 1000,
             loggedInDevices :=
               [\<lparr>deviceId = ''dev-A'', ipAddress = None, userAgent = None, loginCount = 1,
                 refreshToken = Some ''ru.s'',
                 loginHistory = [\<lparr>loginAt = 1000, logoutAt = None\<rparr>]\<rparr>]\<rparr>]\<rparr>"

text \<open>
  Alice after logging in from \<open>dev-A\<close> once more, at 3000 ms (lemma
  \<open>reloggedDb_by_login\<close> below): the device holds \<open>ru.sss\<close>, and \<open>ru.s\<close> is left
  in \<^verbatim>\<open>refreshTokens\<close> only.
\<close>

definition reloggedDb :: database where
  "reloggedDb = sampleDb\<lparr>userLogins :=
      [alice\<lparr>refreshTokens := [\<lparr>token = ''ru.s'', entryDeviceId = ''dev-A'', createdAt = 1000\<rparr>,
                               \<lparr>token = ''ru.sss'', entryDeviceId = ''dev-A'', createdAt = 3000\<rparr>],
             isLoggedIn := True, lastLogin := Some 3000,
             loggedInDevices :=
               [\<lparr>deviceId = ''dev-A'', ipAddress = None, userAgent = None, loginCount = 2,
                 refreshToken = Some ''ru.sss'',
                 loginHistory = [\<lparr>loginAt = 1000, logoutAt = None\<rparr>,
                                 \<lparr>loginAt = 3000, logoutAt = None\<rparr>]\<rparr>]\<rparr>]\<rparr>"

text \<open>
  Alice after a second login, from \<open>dev-B\<close> at 2000 ms (lemma
  \<open>twoDeviceDb_by_login\<close> below): two open device sessions.
\<close>

definition twoDeviceDb :: database where
  "twoDeviceDb = sampleDb\<lparr>userLogins :=
      [alice\<lparr>refreshTokens := [\<lparr>token = ''ru.s'', entryDeviceId = ''dev-A'', createdAt = 1000\<rparr>,
                               \<lparr>token = ''ru.ss'', entryDeviceId = ''dev-B'', createdAt = 2000\<rparr>],
             isLoggedIn := True, lastLogin := Some 2000,
             loggedInDevices :=
               [\<lparr>deviceId = ''dev-A'', ipAddress = None, userAgent = None, loginCount = 1,
                 refreshToken = Some ''ru.s'',
                 loginHistory = [\<lparr>loginAt = 1000, logoutAt = None\<rparr>]\<rparr>,
                \<lparr>deviceId = ''dev-B'', ipAddress = Some ''10.0.0.7'', userAgent = None, loginCount = 1,
                 refreshToken = Some ''ru.ss'',
                 loginHistory = [\<lparr>loginAt = 2000, logoutAt = None\<rparr>]\<rparr>]\<rparr>]\<rparr>"

subsection \<open>The token invariant of the data model\<close>

text \<open>
  A device's \<^verbatim>\<open>refreshToken\<close>, when it is not \<^verbatim>\<open>null\<close>, is the token of an entry of the
  document's \<^verbatim>\<open>refreshTokens\<close>; \<open>dbTokensBound\<close> says so of every document.
\<close>

definition tokenListed :: "tokenEntry list \<Rightarrow> device \<Rightarrow> bool" where
  "tokenListed entries d =
     (case refreshToken d of None \<Rightarrow> True | Some t \<Rightarrow> t \<in> set (map token entries))"

definition tokensBound :: "userLogin \<Rightarrow> bool" where
  "tokensBound doc = list_all (tokenListed (refreshTokens doc)) (loggedInDevices doc)"

definition dbTokensBound :: "database \<Rightarrow> bool" where
  "dbTokensBound db = list_all tokensBound (userLogins db)"

section \<open>Saving and looking up\<close>

lemma find_replace_some:
  "find P xs = Some r \<Longrightarrow> P r' \<Longrightarrow> k r = k r' \<Longrightarrow>
   find P (map (\<lambda>x. if k x = k r' then r' else x) xs) = Some r'"
  by (induction xs) (auto split: if_splits)

lemma find_replace_none:
  "find P xs = None \<Longrightarrow> \<not> P r' \<Longrightarrow>
   find P (map (\<lambda>x. if k x = k r' then r' else x) xs) = None"
  by (induction xs) (auto split: if_splits)

lemma preSaveHook_fields [simp]:
  "ulId (preSaveHook env m d) = ulId d"
  "user (preSaveHook env m d) = user d"
  "username (preSaveHook env m d) = username d"
  "refreshTokens (preSaveHook env m d) = refreshTokens d"
  "failedLoginAttempts (preSaveHook env m d) = failedLoginAttempts d"
  "lockLevel (preSaveHook env m d) = lockLevel d"
  "lockUntil (preSaveHook env m d) = lockUntil d"
  "isPermanentlyLocked (preSaveHook env m d) = isPermanentlyLocked d"
  "isLoggedIn (preSaveHook env m d) = isLoggedIn d"
  "lastLogin (preSaveHook env m d) = lastLogin d"
  "loggedInDevices (preSaveHook env m d) = loggedInDevices d"
  by (simp_all add: preSaveHook_def)

lemma preSaveHook_False [simp]: "preSaveHook env False d = d"
  by (simp add: preSaveHook_def)

lemma save_fst [simp]: "fst (save env m d db) = preSaveHook env m d"
  by (simp add: save_def Let_def)

lemma save_users [simp]: "users (snd (save env m d db)) = users db"
  by (simp add: save_def Let_def)

lemma save_userLogins:
  "userLogins (snd (save env m d db)) =
     map (\<lambda>x. if ulId x = ulId (preSaveHook env m d) then preSaveHook env m d else x) (userLogins db)"
  by (simp add: save_def Let_def)

lemma findUserLoginByUser_save:
  "findUserLoginByUser db uid = Some r \<Longrightarrow> ulId d = ulId r \<Longrightarrow> user d = user r \<Longrightarrow>
   findUserLoginByUser (snd (save env m d db)) uid = Some (preSaveHook env m d)"
  unfolding findUserLoginByUser_def save_userLogins
  by (rule find_replace_some) (auto dest: find_Some_iff[THEN iffD1])

lemma findUserLoginById_save:
  "findUserLoginById db i = Some r \<Longrightarrow> ulId d = ulId r \<Longrightarrow>
   findUserLoginById (snd (save env m d db)) i = Some (preSaveHook env m d)"
  unfolding findUserLoginById_def save_userLogins
  by (rule find_replace_some) (auto dest: find_Some_iff[THEN iffD1])

lemma findUserLoginByUsername_save:
  "findUserLoginByUsername db n = Some r \<Longrightarrow> ulId d = ulId r \<Longrightarrow> username d = username r \<Longrightarrow>
   findUserLoginByUsername (snd (save env m d db)) n = Some (preSaveHook env m d)"
  unfolding findUserLoginByUsername_def save_userLogins
  by (rule find_replace_some) (auto dest: find_Some_iff[THEN iffD1])

lemma findUserLoginByUsername_save_none:
  "findUserLoginByUsername db n = None \<Longrightarrow> username d \<noteq> n \<Longrightarrow>
   findUserLoginByUsername (snd (save env m d db)) n = None"
  unfolding findUserLoginByUsername_def save_userLogins
  by (rule find_replace_none) auto

lemma findUserLoginByUser_mem:
  "findUserLoginByUser db uid = Some r \<Longrightarrow> r \<in> set (userLogins db) \<and> user r = uid"
  by (auto simp: findUserLoginByUser_def find_Some_iff)

lemma findUserLoginByUsername_none:
  "findUserLoginByUsername db n = None \<Longrightarrow> r \<in> set (userLogins db) \<Longrightarrow> username r \<noteq> n"
  by (auto simp: findUserLoginByUsername_def find_None_iff)

lemma findUserByLoginId_save [simp]:
  "findUserByLoginId (snd (save env m d db)) lid = findUserByLoginId db lid"
  by (simp add: findUserByLoginId_def)

lemma findUserById_save [simp]:
  "findUserById (snd (save env m d db)) i = findUserById db i"
  by (simp add: findUserById_def)

lemma resolveLogin_save:
  assumes "resolveLogin env db lid = Some r" "ulId d = ulId r" "user d = user r"
    "username d = username r"
  shows "resolveLogin env (snd (save env m d db)) lid = Some (preSaveHook env m d)"
proof (cases "findUserLoginByUsername db (toLowerCase env lid)")
  case (Some a)
  with assms(1) have "a = r" by (simp add: resolveLogin_def)
  with Some assms show ?thesis
    by (simp add: resolveLogin_def findUserLoginByUsername_save)
next
  case None
  with assms(1) obtain u where u: "findUserByLoginId db lid = Some u"
    "findUserLoginByUser db (uId u) = Some r"
    by (auto simp: resolveLogin_def split: option.splits)
  from u(2) have "r \<in> set (userLogins db)" by (simp add: findUserLoginByUser_mem)
  with None have "username r \<noteq> toLowerCase env lid" by (rule findUserLoginByUsername_none)
  with assms(4) have "username d \<noteq> toLowerCase env lid" by simp
  with None have "findUserLoginByUsername (snd (save env m d db)) (toLowerCase env lid) = None"
    by (rule findUserLoginByUsername_save_none)
  with u assms show ?thesis
    by (simp add: resolveLogin_def findUserLoginByUser_save)
qed

section \<open>Issuing a refresh token\<close>

lemma generateRefreshToken_token:
  "fst (generateRefreshToken env now doc devId ip ua db) = jwtSignRefresh env (user doc) now"
  by (simp add: generateRefreshToken_def Let_def split: prod.splits)

lemma generateRefreshToken_db:
  "snd (snd (generateRefreshToken env now doc devId ip ua db)) =
     snd (save env False (fst (snd (generateRefreshToken env now doc devId ip ua db))) db)"
  by (simp add: generateRefreshToken_def Let_def save_def split: prod.splits)

lemma generateRefreshToken_frame [simp]:
  "ulId (fst (snd (generateRefreshToken env now doc devId ip ua db))) = ulId doc"
  "user (fst (snd (generateRefreshToken env now doc devId ip ua db))) = user doc"
  "username (fst (snd (generateRefreshToken env now doc devId ip ua db))) = username doc"
  "password (fst (snd (generateRefreshToken env now doc devId ip ua db))) = password doc"
  "failedLoginAttempts (fst (snd (generateRefreshToken env now doc devId ip ua db))) = failedLoginAttempts doc"
  "lockLevel (fst (snd (generateRefreshToken env now doc devId ip ua db))) = lockLevel doc"
  "lockUntil (fst (snd (generateRefreshToken env now doc devId ip ua db))) = lockUntil doc"
  "isPermanentlyLocked (fst (snd (generateRefreshToken env now doc devId ip ua db))) = isPermanentlyLocked doc"
  "isLoggedIn (fst (snd (generateRefreshToken env now doc devId ip ua db))) = isLoggedIn doc"
  "lastLogin (fst (snd (generateRefreshToken env now doc devId ip ua db))) = lastLogin doc"
  by (simp_all add: generateRefreshToken_def Let_def save_def split: prod.splits option.splits)

lemma generateRefreshToken_refreshTokens:
  "refreshTokens (fst (snd (generateRefreshToken env now doc devId ip ua db))) =
     refreshTokens doc @
       [\<lparr>token = jwtSignRefresh env (user doc) now,
         entryDeviceId = (case truthyStr devId of Some d \<Rightarrow> d | None \<Rightarrow> ''unknown''),
         createdAt = now\<rparr>]"
  by (simp add: generateRefreshToken_def Let_def save_def split: prod.splits option.splits)

lemma generateRefreshToken_devices:
  "loggedInDevices (fst (snd (generateRefreshToken env now doc devId ip ua db))) =
     (case truthyStr devId of
        None \<Rightarrow> loggedInDevices doc
      | Some did \<Rightarrow>
         (case find (\<lambda>d. deviceId d = did) (loggedInDevices doc) of
            Some dev \<Rightarrow> updateFirst (\<lambda>d. deviceId d = did)
                (updateExistingDevice now (jwtSignRefresh env (user doc) now) ip ua) (loggedInDevices doc)
          | None \<Rightarrow> loggedInDevices doc @
                [newDeviceEntry now (jwtSignRefresh env (user doc) now) did ip ua]))"
  by (simp add: generateRefreshToken_def Let_def save_def split: prod.splits option.splits)

lemma login_success_iff:
  "login env now db loginId pw devId ip ua = (Inr res, db') \<longleftrightarrow>
   (\<exists>ul u. resolveLogin env db loginId = Some ul \<and> \<not> isPermanentlyLocked ul \<and>
      \<not> temporarilyLocked ul now \<and> comparePassword env ul pw \<and>
      findUserById db (user ul) = Some u \<and> canLogin u \<and> isActive u \<and>
      (let ul1 = ul\<lparr>failedLoginAttempts := 0, lockLevel := 0, lockUntil := None,
                     isLoggedIn := True, lastLogin := Some now\<rparr>;
           g = generateRefreshToken env now ul1 devId ip ua db
       in res = \<lparr>resUser = u, resAccessToken = generateAccessToken env now ul1,
                 resRefreshToken = fst g, resForcePasswordChange = False, resDeviceId = devId\<rparr>
          \<and> db' = snd (snd g)))"
  by (auto simp: login_def Let_def split: option.splits prod.splits if_splits)

section \<open>Evaluation on the sample data\<close>

lemmas sample_defs = sampleEnv_def sampleDb_def alice_def asciiLower_def
lemmas query_defs = resolveLogin_def findUserLoginByUsername_def findUserLoginByUser_def
  findUserLoginById_def findUserByLoginId_def findUserById_def
lemmas method_defs = comparePassword_def generateAccessToken_def generateRefreshToken_def
  verifyRefreshTokenForDevice_def logoutDevice_def logoutAllDevices_def revokeRefreshToken_def
  save_def preSaveHook_def truthyStr_def updateExistingDevice_def newDeviceEntry_def
  closeDevice_def closeLastLogin_def temporarilyLocked_def remainingTime_def recordFailedAttempt_def
  ceilDiv_def Let_def

section \<open>Login\<close>

text \<open>
  C7. Every successful login resets the failure state. A login that returns a result
  has resolved its record, found it neither permanently nor temporarily locked,
  verified the password and found the user with \<^verbatim>\<open>canLogin\<close> and \<^verbatim>\<open>isActive\<close>
  (lemma \<open>login_success_iff\<close> has the converse); the record that the login id
  resolves to afterwards has \<open>failedLoginAttempts = 0\<close>,
  \<open>lockLevel = 0\<close>, \<open>lockUntil = None\<close>, \<open>isLoggedIn = True\<close> and
  \<open>lastLogin = Some now\<close>, whatever the counters were before.
\<close>

theorem login_success_resets_failure_state:
  assumes "login env now db loginId pw devId ip ua = (Inr res, db')"
  shows "(\<exists>ul u. resolveLogin env db loginId = Some ul \<and> \<not> isPermanentlyLocked ul \<and>
            \<not> temporarilyLocked ul now \<and> comparePassword env ul pw \<and>
            findUserById db (user ul) = Some u \<and> canLogin u \<and> isActive u) \<and>
         (\<exists>ul'. resolveLogin env db' loginId = Some ul' \<and>
            failedLoginAttempts ul' = 0 \<and> lockLevel ul' = 0 \<and> lockUntil ul' = None \<and>
            isLoggedIn ul' \<and> lastLogin ul' = Some now)"
proof -
  from assms obtain ul u where
    r: "resolveLogin env db loginId = Some ul" and
    ok: "\<not> isPermanentlyLocked ul" "\<not> temporarilyLocked ul now" "comparePassword env ul pw"
        "findUserById db (user ul) = Some u" "canLogin u" "isActive u" and
    db': "db' = snd (snd (generateRefreshToken env now
             (ul\<lparr>failedLoginAttempts := 0, lockLevel := 0, lockUntil := None,
                 isLoggedIn := True, lastLogin := Some now\<rparr>) devId ip ua db))"
    unfolding login_success_iff Let_def by blast
  define g where "g = fst (snd (generateRefreshToken env now
             (ul\<lparr>failedLoginAttempts := 0, lockLevel := 0, lockUntil := None,
                 isLoggedIn := True, lastLogin := Some now\<rparr>) devId ip ua db))"
  have "db' = snd (save env False g db)"
    unfolding db' g_def by (rule generateRefreshToken_db)
  moreover have "ulId g = ulId ul" "user g = user ul" "username g = username ul"
    by (simp_all add: g_def)
  ultimately have "resolveLogin env db' loginId = Some g"
    using resolveLogin_save[OF r, of g False] by simp
  moreover have "failedLoginAttempts g = 0" "lockLevel g = 0" "lockUntil g = None"
    "isLoggedIn g" "lastLogin g = Some now"
    by (simp_all add: g_def)
  ultimately show ?thesis using r ok by blast
qed

theorem login_success_resets_failure_state_witness:
  "fst (login sampleEnv 1000 staleDb ''Alice'' ''p@ss1'' (Some ''dev-A'') None None) =
     Inr \<lparr>resUser = \<lparr>uId = 1, userId = ''EMP-1'', email = Some ''alice@example.org'',
                      canLogin = True, isActive = True\<rparr>,
          resAccessToken = ''au.s'', resRefreshToken = ''ru.s'',
          resForcePasswordChange = False, resDeviceId = Some ''dev-A''\<rparr> \<and>
   (\<exists>ul'. resolveLogin sampleEnv
            (snd (login sampleEnv 1000 staleDb ''Alice'' ''p@ss1'' (Some ''dev-A'') None None))
            ''Alice'' = Some ul' \<and>
      failedLoginAttempts ul' = 0 \<and> lockLevel ul' = 0 \<and> lockUntil ul' = None \<and>
      isLoggedIn ul' \<and> lastLogin ul' = Some 1000)"
proof -
  have f: "fst (login sampleEnv 1000 staleDb ''Alice'' ''p@ss1'' (Some ''dev-A'') None None) =
     Inr \<lparr>resUser = \<lparr>uId = 1, userId = ''EMP-1'', email = Some ''alice@example.org'',
                      canLogin = True, isActive = True\<rparr>,
          resAccessToken = ''au.s'', resRefreshToken = ''ru.s'',
          resForcePasswordChange = False, resDeviceId = Some ''dev-A''\<rparr>"
    by (simp add: login_def sample_defs staleDb_def query_defs method_defs)
  then have h: "login sampleEnv 1000 staleDb ''Alice'' ''p@ss1'' (Some ''dev-A'') None None =
     (Inr \<lparr>resUser = \<lparr>uId = 1, userId = ''EMP-1'', email = Some ''alice@example.org'',
                      canLogin = True, isActive = True\<rparr>,
          resAccessToken = ''au.s'', resRefreshToken = ''ru.s'',
          resForcePasswordChange = False, resDeviceId = Some ''dev-A''\<rparr>,
      snd (login sampleEnv 1000 staleDb ''Alice'' ''p@ss1'' (Some ''dev-A'') None None))"
    by (simp add: prod_eq_iff)
  from login_success_resets_failure_state[OF h] f show ?thesis by blast
qed

text \<open>
  C8. A login that fails with \<open>LoginDisabled\<close> has passed the lock checks and the
  password check (the user's flags are read only after them), and it leaves the
  database as it was: the record keeps its \<open>failedLoginAttempts\<close>, \<open>lockLevel\<close> and
  \<open>lockUntil\<close>.
\<close>

theorem login_disabled_leaves_record:
  assumes "login env now db loginId pw devId ip ua = (Inl LoginDisabled, db')"
  shows "db' = db \<and>
         (\<exists>ul u. resolveLogin env db loginId = Some ul \<and> resolveLogin env db' loginId = Some ul \<and>
            \<not> isPermanentlyLocked ul \<and> \<not> temporarilyLocked ul now \<and>
            comparePassword env ul pw \<and>
            findUserById db (user ul) = Some u \<and> (\<not> canLogin u \<or> \<not> isActive u))"
  using assms
  by (auto simp: login_def Let_def split: option.splits prod.splits if_splits)

theorem login_disabled_leaves_record_witness:
  "login sampleEnv 1000 disabledDb ''Alice'' ''p@ss1'' (Some ''dev-A'') None None =
     (Inl LoginDisabled, disabledDb) \<and>
   map_option (\<lambda>ul. (failedLoginAttempts ul, lockLevel ul, lockUntil ul))
     (resolveLogin sampleEnv disabledDb ''Alice'') = Some (4, 1, Some 500)"
proof -
  have h: "login sampleEnv 1000 disabledDb ''Alice'' ''p@ss1'' (Some ''dev-A'') None None =
     (Inl LoginDisabled, disabledDb)"
    by (simp add: login_def sample_defs staleDb_def disabledDb_def query_defs method_defs)
  have "map_option (\<lambda>ul. (failedLoginAttempts ul, lockLevel ul, lockUntil ul))
     (resolveLogin sampleEnv disabledDb ''Alice'') = Some (4, 1, Some 500)"
    by (simp add: sample_defs staleDb_def disabledDb_def query_defs)
  with login_disabled_leaves_record[OF h] h show ?thesis by simp
qed

section \<open>Lockout\<close>

lemma recordFailedAttempt_fields [simp]:
  "ulId (recordFailedAttempt now ul) = ulId ul"
  "user (recordFailedAttempt now ul) = user ul"
  "username (recordFailedAttempt now ul) = username ul"
  "isPermanentlyLocked (recordFailedAttempt now ul) = isPermanentlyLocked ul"
  "failedLoginAttempts (recordFailedAttempt now ul) = failedLoginAttempts ul + 1"
  by (simp_all add: recordFailedAttempt_def Let_def)

lemma recordFailedAttempt_lock:
  "4 \<le> failedLoginAttempts ul \<Longrightarrow>
   lockLevel (recordFailedAttempt now ul) = 1 \<and>
   lockUntil (recordFailedAttempt now ul) = Some (now + 15 * 60 * 1000)"
  by (simp add: recordFailedAttempt_def Let_def)

lemma recordFailedAttempt_below_threshold:
  "failedLoginAttempts ul < 4 \<Longrightarrow>
   lockLevel (recordFailedAttempt now ul) = lockLevel ul \<and>
   lockUntil (recordFailedAttempt now ul) = lockUntil ul"
  by (simp add: recordFailedAttempt_def Let_def)

lemma login_invalid_step:
  assumes "resolveLogin env db lid = Some ul"
    and "login env now db lid pw devId ip ua = (Inl InvalidCredentials, db')"
  shows "resolveLogin env db' lid = Some (recordFailedAttempt now ul)"
proof -
  from assms have "db' = snd (save env False (recordFailedAttempt now ul) db)"
    by (auto simp: login_def Let_def split: option.splits prod.splits if_splits)
  with resolveLogin_save[OF assms(1), of "recordFailedAttempt now ul" False]
  show ?thesis by simp
qed

lemma ceilDiv_pos: "0 < a \<Longrightarrow> 0 < b \<Longrightarrow> 0 < ceilDiv a b"
proof -
  assume "0 < a" "0 < b"
  then have "(- a) div b < 0" by (simp add: div_neg_pos_less0)
  then show ?thesis by (simp add: ceilDiv_def)
qed

lemma login_while_locked:
  assumes "resolveLogin env db lid = Some ul" "\<not> isPermanentlyLocked ul"
    "lockUntil ul = Some t" "now < t"
  shows "login env now db lid pw devId ip ua =
           (Inl (AccountLockedTemporary (ceilDiv (t - now) (1000 * 60))), db)"
  using assms by (simp add: login_def temporarilyLocked_def remainingTime_def)

lemma login_after_lock:
  assumes "resolveLogin env db lid = Some ul" "lockUntil ul = Some t" "t \<le> now"
  shows "fst (login env now db lid pw devId ip ua) \<noteq> Inl (AccountLockedTemporary m)"
  using assms
  by (auto simp: login_def temporarilyLocked_def Let_def split: option.splits prod.splits)

text \<open>
  C1. Five consecutive failed logins lock the record. Starting from any record that
  the login id resolves to, if five logins in a row each fail with
  \<open>InvalidCredentials\<close> (made at the instants \<open>t1\<close> to \<open>t5\<close>), then the
  record has \<open>lockLevel = 1\<close> and \<open>lockUntil = t5 + 15 min\<close>; every login
  before that instant, whatever its password, is denied with
  \<open>AccountLockedTemporary\<close> carrying a positive number of minutes
  (\<^verbatim>\<open>Math.ceil\<close> of the remaining time) and leaves the database as it is; and from
  that instant on no login is denied with \<open>AccountLockedTemporary\<close>. It is the
  fifth failure that locks: when the record starts with no failure counted, the
  first four leave \<open>lockLevel\<close> and \<open>lockUntil\<close> as they were.
\<close>

theorem five_failed_logins_lock_account:
  assumes r0: "resolveLogin env db0 lid = Some ul0"
    and l1: "login env t1 db0 lid p1 d1 i1 a1 = (Inl InvalidCredentials, db1)"
    and l2: "login env t2 db1 lid p2 d2 i2 a2 = (Inl InvalidCredentials, db2)"
    and l3: "login env t3 db2 lid p3 d3 i3 a3 = (Inl InvalidCredentials, db3)"
    and l4: "login env t4 db3 lid p4 d4 i4 a4 = (Inl InvalidCredentials, db4)"
    and l5: "login env t5 db4 lid p5 d5 i5 a5 = (Inl InvalidCredentials, db5)"
  shows "\<exists>ul5. resolveLogin env db5 lid = Some ul5 \<and>
           lockLevel ul5 = 1 \<and> lockUntil ul5 = Some (t5 + 15 * 60 * 1000) \<and>
           (\<forall>t pw d i a. t < t5 + 15 * 60 * 1000 \<longrightarrow>
              login env t db5 lid pw d i a =
                (Inl (AccountLockedTemporary (ceilDiv (t5 + 15 * 60 * 1000 - t) (1000 * 60))), db5) \<and>
              0 < ceilDiv (t5 + 15 * 60 * 1000 - t) (1000 * 60)) \<and>
           (\<forall>t pw d i a m. t5 + 15 * 60 * 1000 \<le> t \<longrightarrow>
              fst (login env t db5 lid pw d i a) \<noteq> Inl (AccountLockedTemporary m)) \<and>
           (failedLoginAttempts ul0 = 0 \<longrightarrow>
              (\<exists>ul4. resolveLogin env db4 lid = Some ul4 \<and> failedLoginAttempts ul4 = 4 \<and>
                 lockLevel ul4 = lockLevel ul0 \<and> lockUntil ul4 = lockUntil ul0))"
proof -
  define ul1 where "ul1 = recordFailedAttempt t1 ul0"
  define ul2 where "ul2 = recordFailedAttempt t2 ul1"
  define ul3 where "ul3 = recordFailedAttempt t3 ul2"
  define ul4 where "ul4 = recordFailedAttempt t4 ul3"
  define ul5 where "ul5 = recordFailedAttempt t5 ul4"
  have r1: "resolveLogin env db1 lid = Some ul1"
    unfolding ul1_def by (rule login_invalid_step[OF r0 l1])
  have r2: "resolveLogin env db2 lid = Some ul2"
    unfolding ul2_def by (rule login_invalid_step[OF r1 l2])
  have r3: "resolveLogin env db3 lid = Some ul3"
    unfolding ul3_def by (rule login_invalid_step[OF r2 l3])
  have r4: "resolveLogin env db4 lid = Some ul4"
    unfolding ul4_def by (rule login_invalid_step[OF r3 l4])
  have r5: "resolveLogin env db5 lid = Some ul5"
    unfolding ul5_def by (rule login_invalid_step[OF r4 l5])
  have "4 \<le> failedLoginAttempts ul4"
    by (simp add: ul4_def ul3_def ul2_def ul1_def)
  then have lock: "lockLevel ul5 = 1" "lockUntil ul5 = Some (t5 + 15 * 60 * 1000)"
    unfolding ul5_def by (simp_all add: recordFailedAttempt_lock)
  from r4 l5 have "\<not> isPermanentlyLocked ul4"
    by (auto simp: login_def split: if_splits)
  then have np: "\<not> isPermanentlyLocked ul5" by (simp add: ul5_def)
  have denied: "login env t db5 lid pw d i a =
       (Inl (AccountLockedTemporary (ceilDiv (t5 + 15 * 60 * 1000 - t) (1000 * 60))), db5) \<and>
       0 < ceilDiv (t5 + 15 * 60 * 1000 - t) (1000 * 60)"
    if "t < t5 + 15 * 60 * 1000" for t pw d i a
    using login_while_locked[OF r5 np lock(2) that] that by (simp add: ceilDiv_pos)
  have after: "fst (login env t db5 lid pw d i a) \<noteq> Inl (AccountLockedTemporary m)"
    if "t5 + 15 * 60 * 1000 \<le> t" for t pw d i a m
    using login_after_lock[OF r5 lock(2) that] .
  have four: "failedLoginAttempts ul4 = 4 \<and> lockLevel ul4 = lockLevel ul0 \<and>
      lockUntil ul4 = lockUntil ul0"
    if "failedLoginAttempts ul0 = 0"
    using that
    by (simp add: ul4_def ul3_def ul2_def ul1_def recordFailedAttempt_below_threshold)
  from r4 four have start: "failedLoginAttempts ul0 = 0 \<longrightarrow>
      (\<exists>ul4. resolveLogin env db4 lid = Some ul4 \<and> failedLoginAttempts ul4 = 4 \<and>
         lockLevel ul4 = lockLevel ul0 \<and> lockUntil ul4 = lockUntil ul0)"
    by blast
  from denied have d: "\<forall>t pw d i a. t < t5 + 15 * 60 * 1000 \<longrightarrow>
      login env t db5 lid pw d i a =
        (Inl (AccountLockedTemporary (ceilDiv (t5 + 15 * 60 * 1000 - t) (1000 * 60))), db5) \<and>
      0 < ceilDiv (t5 + 15 * 60 * 1000 - t) (1000 * 60)"
    by blast
  from after have a: "\<forall>t pw d i a m. t5 + 15 * 60 * 1000 \<le> t \<longrightarrow>
      fst (login env t db5 lid pw d i a) \<noteq> Inl (AccountLockedTemporary m)"
    by blast
  from r5 lock d a start show ?thesis
    by (intro exI[of _ ul5] conjI)
qed

theorem five_failed_logins_lock_account_witness:
  "(\<exists>ul4. resolveLogin sampleEnv (failedDb 4) ''alice'' = Some ul4 \<and>
      failedLoginAttempts ul4 = 4 \<and> lockLevel ul4 = 0 \<and> lockUntil ul4 = None) \<and>
   (\<exists>ul5. resolveLogin sampleEnv lockedDb ''alice'' = Some ul5 \<and>
      lockLevel ul5 = 1 \<and> lockUntil ul5 = Some 904000) \<and>
   login sampleEnv 5000 lockedDb ''alice'' ''p@ss1'' (Some ''dev-A'') None None =
     (Inl (AccountLockedTemporary 15), lockedDb)"
proof -
  have r0: "resolveLogin sampleEnv sampleDb ''alice'' = Some alice"
    by (simp add: sample_defs failedDb_def lockedDb_def query_defs)
  have l1: "login sampleEnv 0 sampleDb ''alice'' ''guess1'' (Some ''dev-A'') None None =
      (Inl InvalidCredentials, failedDb 1)"
    by (simp add: login_def sample_defs failedDb_def lockedDb_def query_defs method_defs)
  have l2: "login sampleEnv 1000 (failedDb 1) ''alice'' ''guess2'' (Some ''dev-A'') None None =
      (Inl InvalidCredentials, failedDb 2)"
    by (simp add: login_def sample_defs failedDb_def lockedDb_def query_defs method_defs)
  have l3: "login sampleEnv 2000 (failedDb 2) ''alice'' ''guess3'' (Some ''dev-A'') None None =
      (Inl InvalidCredentials, failedDb 3)"
    by (simp add: login_def sample_defs failedDb_def lockedDb_def query_defs method_defs)
  have l4: "login sampleEnv 3000 (failedDb 3) ''alice'' ''guess4'' (Some ''dev-A'') None None =
      (Inl InvalidCredentials, failedDb 4)"
    by (simp add: login_def sample_defs failedDb_def lockedDb_def query_defs method_defs)
  have l5: "login sampleEnv 4000 (failedDb 4) ''alice'' ''guess5'' (Some ''dev-A'') None None =
      (Inl InvalidCredentials, lockedDb)"
    by (simp add: login_def sample_defs failedDb_def lockedDb_def query_defs method_defs)
  have c: "ceilDiv (4000 + 15 * 60 * 1000 - 5000) (1000 * 60) = 15"
    by (simp add: ceilDiv_def)
  have z: "failedLoginAttempts alice = 0" "lockLevel alice = 0" "lockUntil alice = None"
    by (simp_all add: alice_def)
  from five_failed_logins_lock_account[OF r0 l1 l2 l3 l4 l5]
  obtain ul5 where all:
    "resolveLogin sampleEnv lockedDb ''alice'' = Some ul5 \<and>
     lockLevel ul5 = 1 \<and> lockUntil ul5 = Some (4000 + 15 * 60 * 1000) \<and>
     (\<forall>t pw d i a. t < 4000 + 15 * 60 * 1000 \<longrightarrow>
        login sampleEnv t lockedDb ''alice'' pw d i a =
          (Inl (AccountLockedTemporary (ceilDiv (4000 + 15 * 60 * 1000 - t) (1000 * 60))), lockedDb) \<and>
        0 < ceilDiv (4000 + 15 * 60 * 1000 - t) (1000 * 60)) \<and>
     (\<forall>t pw d i a m. 4000 + 15 * 60 * 1000 \<le> t \<longrightarrow>
        fst (login sampleEnv t lockedDb ''alice'' pw d i a) \<noteq> Inl (AccountLockedTemporary m)) \<and>
     (failedLoginAttempts alice = 0 \<longrightarrow>
        (\<exists>ul4. resolveLogin sampleEnv (failedDb 4) ''alice'' = Some ul4 \<and>
           failedLoginAttempts ul4 = 4 \<and>
           lockLevel ul4 = lockLevel alice \<and> lockUntil ul4 = lockUntil alice))"
    by (rule exE)
  from all have u: "resolveLogin sampleEnv lockedDb ''alice'' = Some ul5"
      "lockLevel ul5 = 1" "lockUntil ul5 = Some 904000"
    by simp_all
  from all z have e: "\<exists>ul4. resolveLogin sampleEnv (failedDb 4) ''alice'' = Some ul4 \<and>
      failedLoginAttempts ul4 = 4 \<and> lockLevel ul4 = 0 \<and> lockUntil ul4 = None"
    by simp
  from all have "(5000::int) < 4000 + 15 * 60 * 1000 \<longrightarrow>
      login sampleEnv 5000 lockedDb ''alice'' ''p@ss1'' (Some ''dev-A'') None None =
        (Inl (AccountLockedTemporary (ceilDiv (4000 + 15 * 60 * 1000 - 5000) (1000 * 60))), lockedDb) \<and>
      0 < ceilDiv (4000 + 15 * 60 * 1000 - 5000) (1000 * 60)"
    by blast
  with c have "login sampleEnv 5000 lockedDb ''alice'' ''p@ss1'' (Some ''dev-A'') None None =
      (Inl (AccountLockedTemporary 15), lockedDb)"
    by simp
  with u e show ?thesis by blast
qed

section \<open>Device-scoped verification\<close>

lemma updateExistingDevice_fields [simp]:
  "deviceId (updateExistingDevice now tok ip ua dev) = deviceId dev"
  "refreshToken (updateExistingDevice now tok ip ua dev) = Some tok"
  by (simp_all add: updateExistingDevice_def)

lemma newDeviceEntry_fields [simp]:
  "deviceId (newDeviceEntry now tok did ip ua) = did"
  "refreshToken (newDeviceEntry now tok did ip ua) = Some tok"
  by (simp_all add: newDeviceEntry_def)

lemma verifyRefreshTokenForDevice_iff:
  "verifyRefreshTokenForDevice doc tok devId \<longleftrightarrow>
     (\<exists>did dev. truthyStr devId = Some did \<and>
        find (\<lambda>d. deviceId d = did) (loggedInDevices doc) = Some dev \<and>
        refreshToken dev = Some tok)"
  by (auto simp: verifyRefreshTokenForDevice_def split: option.splits)

lemma loggedInDb_by_login:
  "login sampleEnv 1000 sampleDb ''alice'' ''p@ss1'' (Some ''dev-A'') None None =
     (Inr \<lparr>resUser = \<lparr>uId = 1, userId = ''EMP-1'', email = Some ''alice@example.org'',
                       canLogin = True, isActive = True\<rparr>,
           resAccessToken = ''au.s'', resRefreshToken = ''ru.s'',
           resForcePasswordChange = False, resDeviceId = Some ''dev-A''\<rparr>, loggedInDb)"
  by (simp add: login_def sample_defs loggedInDb_def query_defs method_defs)

lemma reloggedDb_by_login:
  "snd (login sampleEnv 3000 loggedInDb ''alice'' ''p@ss1'' (Some ''dev-A'') None None) = reloggedDb"
  by (simp add: login_def sample_defs loggedInDb_def reloggedDb_def query_defs method_defs
      eval_nat_numeral)

text \<open>
  C5. \<open>verifyRefreshTokenForDevice\<close> is true exactly when a device id is given and is
  not the empty string, \<^verbatim>\<open>find\<close> returns a device for it, and that device's
  \<^verbatim>\<open>refreshToken\<close> is the given token. The list \<^verbatim>\<open>refreshTokens\<close> plays no part:
  replacing it by any other list leaves the answer as it is. In particular, on a
  record whose first device has the id \<open>did\<close> and holds the token \<open>cur\<close>, a token
  verifies for \<open>did\<close> exactly when \<open>did\<close> is not empty and the token is \<open>cur\<close>,
  whatever \<^verbatim>\<open>refreshTokens\<close> lists.
\<close>

theorem verifyRefreshTokenForDevice_current_only:
  "(verifyRefreshTokenForDevice doc tok devId \<longleftrightarrow>
     (\<exists>did dev. devId = Some did \<and> did \<noteq> [] \<and>
        find (\<lambda>d. deviceId d = did) (loggedInDevices doc) = Some dev \<and>
        refreshToken dev = Some tok)) \<and>
   verifyRefreshTokenForDevice (doc\<lparr>refreshTokens := history\<rparr>) tok devId =
     verifyRefreshTokenForDevice doc tok devId \<and>
   verifyRefreshTokenForDevice
       (doc\<lparr>loggedInDevices := dev0\<lparr>deviceId := did0, refreshToken := Some cur\<rparr> # others,
            refreshTokens := history\<rparr>) tok (Some did0) =
     (did0 \<noteq> [] \<and> tok = cur)"
  by (auto simp: verifyRefreshTokenForDevice_def truthyStr_def split: option.splits if_splits)

theorem verifyRefreshTokenForDevice_current_only_witness:
  "verifyRefreshTokenForDevice (hd (userLogins reloggedDb)) ''ru.sss'' (Some ''dev-A'') \<and>
   ''ru.s'' \<in> set (map token (refreshTokens (hd (userLogins reloggedDb)))) \<and>
   \<not> verifyRefreshTokenForDevice (hd (userLogins reloggedDb)) ''ru.s'' (Some ''dev-A'') \<and>
   \<not> verifyRefreshTokenForDevice (hd (userLogins reloggedDb)) ''ru.sss'' (Some ''dev-B'') \<and>
   \<not> verifyRefreshTokenForDevice (hd (userLogins reloggedDb)) ''ru.sss'' (Some []) \<and>
   \<not> verifyRefreshTokenForDevice (hd (userLogins reloggedDb)) ''ru.sss'' None"
proof -
  have d: "find (\<lambda>d. deviceId d = did) (loggedInDevices (hd (userLogins reloggedDb))) =
      (if did = ''dev-A''
       then Some \<lparr>deviceId = ''dev-A'', ipAddress = None, userAgent = None, loginCount = 2,
                  refreshToken = Some ''ru.sss'',
                  loginHistory = [\<lparr>loginAt = 1000, logoutAt = None\<rparr>,
                                  \<lparr>loginAt = 3000, logoutAt = None\<rparr>]\<rparr>
       else None)" for did
    by (simp add: sample_defs reloggedDb_def)
  have l: "''ru.s'' \<in> set (map token (refreshTokens (hd (userLogins reloggedDb))))"
    by (simp add: sample_defs reloggedDb_def)
  have c: "verifyRefreshTokenForDevice (hd (userLogins reloggedDb)) tok devId \<longleftrightarrow>
      (\<exists>did dev. devId = Some did \<and> did \<noteq> [] \<and>
         find (\<lambda>d. deviceId d = did) (loggedInDevices (hd (userLogins reloggedDb))) = Some dev \<and>
         refreshToken dev = Some tok)" for tok devId
    using verifyRefreshTokenForDevice_current_only[of "hd (userLogins reloggedDb)" tok devId]
    by blast
  show ?thesis unfolding c d using l by auto
qed

section \<open>Refresh\<close>

text \<open>
  \<open>refresh\<close> looks the record up by the UserLogin's own \<^verbatim>\<open>_id\<close>: when no UserLogin
  has the id the token decodes to, the answer is "User not found" and nothing is
  written.
\<close>

lemma refresh_unknown_document_id:
  "jwtVerifyRefresh env tok now = Inr i \<Longrightarrow> findUserLoginById db i = None \<Longrightarrow>
   refresh env now db tok devId = (Inl UserNotFound, db)"
  by (simp add: refresh_def)

text \<open>
  C2, on the code. \<open>loggedInDb\<close> is Alice's record after her login from \<open>dev-A\<close>
  at 1000 ms, which issued \<open>ru.s\<close> (lemma \<open>loggedInDb_by_login\<close>). The token is
  her device's current one and decodes to her User id 1. Her refresh with that token
  and device at 2500 ms is answered with "User not found": the lookup is by the
  UserLogin's \<^verbatim>\<open>_id\<close>, which is 7. No token is rotated and the database is left as
  it was.
\<close>

theorem refresh_of_issued_token_user_not_found:
  "map_option (\<lambda>ul. verifyRefreshTokenForDevice ul ''ru.s'' (Some ''dev-A''))
     (findUserLoginByUser loggedInDb 1) = Some True \<and>
   jwtVerifyRefresh sampleEnv ''ru.s'' 2500 = Inr 1 \<and>
   refresh sampleEnv 2500 loggedInDb ''ru.s'' (Some ''dev-A'') = (Inl UserNotFound, loggedInDb)"
  by (simp add: refresh_def sample_defs loggedInDb_def query_defs method_defs)

section \<open>A login without a device id\<close>

lemma login_success_intro:
  assumes "resolveLogin env db loginId = Some ul" "\<not> isPermanentlyLocked ul"
    "\<not> temporarilyLocked ul now" "comparePassword env ul pw"
    "findUserById db (user ul) = Some u" "canLogin u" "isActive u"
  shows "login env now db loginId pw devId ip ua =
    (Inr \<lparr>resUser = u,
           resAccessToken = generateAccessToken env now
             (ul\<lparr>failedLoginAttempts := 0, lockLevel := 0, lockUntil := None,
                 isLoggedIn := True, lastLogin := Some now\<rparr>),
           resRefreshToken = fst (generateRefreshToken env now
             (ul\<lparr>failedLoginAttempts := 0, lockLevel := 0, lockUntil := None,
                 isLoggedIn := True, lastLogin := Some now\<rparr>) devId ip ua db),
           resForcePasswordChange = False, resDeviceId = devId\<rparr>,
     snd (snd (generateRefreshToken env now
             (ul\<lparr>failedLoginAttempts := 0, lockLevel := 0, lockUntil := None,
                 isLoggedIn := True, lastLogin := Some now\<rparr>) devId ip ua db)))"
  using assms unfolding login_success_iff by (simp add: Let_def)

text \<open>
  C9, as amended. When the device id is missing (\<^verbatim>\<open>null\<close>, \<^verbatim>\<open>undefined\<close> or empty)
  a login that passes the checks is not rejected; the entry appended to
  \<^verbatim>\<open>refreshTokens\<close> carries the device id "unknown"; and the list of device sessions
  is left as it was.
\<close>

theorem missing_deviceId_recorded_as_unknown:
  assumes m: "truthyStr devId = None"
    and r: "resolveLogin env db loginId = Some ul"
    and ok: "\<not> isPermanentlyLocked ul" "\<not> temporarilyLocked ul now" "comparePassword env ul pw"
      "findUserById db (user ul) = Some u" "canLogin u" "isActive u"
  shows "\<exists>res db' ul'. login env now db loginId pw devId ip ua = (Inr res, db') \<and>
           resolveLogin env db' loginId = Some ul' \<and>
           refreshTokens ul' = refreshTokens ul @
             [\<lparr>token = resRefreshToken res, entryDeviceId = ''unknown'', createdAt = now\<rparr>] \<and>
           loggedInDevices ul' = loggedInDevices ul"
proof -
  let ?ul1 = "ul\<lparr>failedLoginAttempts := 0, lockLevel := 0, lockUntil := None,
                 isLoggedIn := True, lastLogin := Some now\<rparr>"
  let ?g = "generateRefreshToken env now ?ul1 devId ip ua db"
  note l = login_success_intro[where devId=devId and ip=ip and ua=ua, OF r ok]
  have "snd (snd ?g) = snd (save env False (fst (snd ?g)) db)"
    by (rule generateRefreshToken_db)
  with resolveLogin_save[OF r, of "fst (snd ?g)" False]
  have r': "resolveLogin env (snd (snd ?g)) loginId = Some (fst (snd ?g))" by simp
  have rt: "refreshTokens (fst (snd ?g)) = refreshTokens ul @
      [\<lparr>token = fst ?g, entryDeviceId = ''unknown'', createdAt = now\<rparr>]"
    by (simp add: generateRefreshToken_refreshTokens generateRefreshToken_token m)
  have dv: "loggedInDevices (fst (snd ?g)) = loggedInDevices ul"
    by (simp add: generateRefreshToken_devices m)
  from l r' rt dv show ?thesis by simp
qed

theorem missing_deviceId_recorded_as_unknown_witness:
  "fst (login sampleEnv 1000 sampleDb ''alice'' ''p@ss1'' None None None) =
     Inr \<lparr>resUser = \<lparr>uId = 1, userId = ''EMP-1'', email = Some ''alice@example.org'',
                      canLogin = True, isActive = True\<rparr>,
          resAccessToken = ''au.s'', resRefreshToken = ''ru.s'',
          resForcePasswordChange = False, resDeviceId = None\<rparr> \<and>
   (\<exists>ul'. resolveLogin sampleEnv
            (snd (login sampleEnv 1000 sampleDb ''alice'' ''p@ss1'' None None None)) ''alice''
           = Some ul' \<and>
      refreshTokens ul' = [\<lparr>token = ''ru.s'', entryDeviceId = ''unknown'', createdAt = 1000\<rparr>] \<and>
      loggedInDevices ul' = [])"
proof -
  have m: "truthyStr None = None" by (simp add: truthyStr_def)
  have r: "resolveLogin sampleEnv sampleDb ''alice'' = Some alice"
    by (simp add: sample_defs query_defs)
  have ok: "\<not> isPermanentlyLocked alice" "\<not> temporarilyLocked alice 1000"
    "comparePassword sampleEnv alice ''p@ss1''"
    "findUserById sampleDb (user alice) = Some (hd (users sampleDb))"
    "canLogin (hd (users sampleDb))" "isActive (hd (users sampleDb))"
    by (simp_all add: sample_defs query_defs method_defs)
  have f: "fst (login sampleEnv 1000 sampleDb ''alice'' ''p@ss1'' None None None) =
     Inr \<lparr>resUser = \<lparr>uId = 1, userId = ''EMP-1'', email = Some ''alice@example.org'',
                      canLogin = True, isActive = True\<rparr>,
          resAccessToken = ''au.s'', resRefreshToken = ''ru.s'',
          resForcePasswordChange = False, resDeviceId = None\<rparr>"
    by (simp add: login_def sample_defs query_defs method_defs)
  have a: "refreshTokens alice = []" "loggedInDevices alice = []"
    by (simp_all add: alice_def)
  from missing_deviceId_recorded_as_unknown[OF m r ok, of None None] f a
  show ?thesis by auto
qed

text \<open>
  C9 as stated fails: after such a login on a record without devices there is no
  device session for "unknown".
\<close>

theorem missing_deviceId_no_session_counterexample:
  "fst (login sampleEnv 1000 sampleDb ''alice'' ''p@ss1'' None None None) =
     Inr \<lparr>resUser = \<lparr>uId = 1, userId = ''EMP-1'', email = Some ''alice@example.org'',
                      canLogin = True, isActive = True\<rparr>,
          resAccessToken = ''au.s'', resRefreshToken = ''ru.s'',
          resForcePasswordChange = False, resDeviceId = None\<rparr> \<and>
   map_option (\<lambda>ul'. find (\<lambda>d. deviceId d = ''unknown'') (loggedInDevices ul'))
     (resolveLogin sampleEnv
        (snd (login sampleEnv 1000 sampleDb ''alice'' ''p@ss1'' None None None)) ''alice'')
     = Some None"
  by (simp add: login_def sample_defs query_defs method_defs)

section \<open>The token invariant\<close>

lemma tokensBound_cong:
  "refreshTokens d' = refreshTokens d \<Longrightarrow> loggedInDevices d' = loggedInDevices d \<Longrightarrow>
   tokensBound d' = tokensBound d"
  by (simp add: tokensBound_def)

lemma tokenListed_append: "tokenListed entries d \<Longrightarrow> tokenListed (entries @ [e]) d"
  by (auto simp: tokenListed_def split: option.splits)

lemma tokenListed_closeDevice [simp]: "tokenListed entries (closeDevice now d)"
  by (simp add: tokenListed_def closeDevice_def)

lemma tokenListed_updateExistingDevice:
  "tok \<in> set (map token entries) \<Longrightarrow> tokenListed entries (updateExistingDevice now tok ip ua d)"
  by (simp add: tokenListed_def)

lemma tokenListed_newDeviceEntry:
  "tok \<in> set (map token entries) \<Longrightarrow> tokenListed entries (newDeviceEntry now tok did ip ua)"
  by (simp add: tokenListed_def)

lemma save_bound:
  "dbTokensBound db \<Longrightarrow> tokensBound d \<Longrightarrow> dbTokensBound (snd (save env m d db))"
  by (auto simp: dbTokensBound_def save_userLogins list_all_iff tokensBound_cong[of "preSaveHook env m d" d])

lemma find_bound:
  "dbTokensBound db \<Longrightarrow> find P (userLogins db) = Some ul \<Longrightarrow> tokensBound ul"
  by (auto simp: dbTokensBound_def list_all_iff find_Some_iff)

lemma list_all_updateFirst:
  "list_all Q xs \<Longrightarrow> (\<And>x. Q x \<Longrightarrow> Q (f x)) \<Longrightarrow> list_all Q (updateFirst P f xs)"
  by (induction xs) auto

lemma generateRefreshToken_bound:
  assumes "tokensBound doc"
  shows "tokensBound (fst (snd (generateRefreshToken env now doc devId ip ua db)))"
proof -
  let ?tok = "jwtSignRefresh env (user doc) now"
  let ?entries = "refreshTokens (fst (snd (generateRefreshToken env now doc devId ip ua db)))"
  have in_new: "?tok \<in> set (map token ?entries)"
    by (simp add: generateRefreshToken_refreshTokens)
  from assms have old: "list_all (tokenListed ?entries) (loggedInDevices doc)"
    by (auto simp: tokensBound_def generateRefreshToken_refreshTokens list_all_iff
        intro: tokenListed_append)
  have upd: "tokenListed ?entries (updateExistingDevice now ?tok ip ua d)" for d
    using in_new by (rule tokenListed_updateExistingDevice)
  have new: "tokenListed ?entries (newDeviceEntry now ?tok did ip ua)" for did
    using in_new by (rule tokenListed_newDeviceEntry)
  have "list_all (tokenListed ?entries)
          (loggedInDevices (fst (snd (generateRefreshToken env now doc devId ip ua db))))"
  proof (cases "truthyStr devId")
    case None
    with old show ?thesis by (simp add: generateRefreshToken_devices)
  next
    case (Some did)
    show ?thesis
    proof (cases "find (\<lambda>d. deviceId d = did) (loggedInDevices doc)")
      case None
      with Some old new show ?thesis by (simp add: generateRefreshToken_devices)
    next
      case (Some dev)
      have "list_all (tokenListed ?entries) (updateFirst (\<lambda>d. deviceId d = did)
              (updateExistingDevice now ?tok ip ua) (loggedInDevices doc))"
        using old upd by (rule list_all_updateFirst)
      with Some \<open>truthyStr devId = Some did\<close> show ?thesis
        by (simp add: generateRefreshToken_devices)
    qed
  qed
  then show ?thesis by (simp add: tokensBound_def)
qed

lemma closeDevice_token [simp]: "refreshToken (closeDevice now d) = None"
  by (simp add: closeDevice_def)

lemma logoutDevice_bound:
  assumes "dbTokensBound db" "tokensBound doc"
  shows "tokensBound (fst (snd (logoutDevice env now doc devId db))) \<and>
         dbTokensBound (snd (snd (logoutDevice env now doc devId db)))"
proof -
  have "tokensBound (doc\<lparr>loggedInDevices := updateFirst P (closeDevice now) (loggedInDevices doc)\<rparr>)" for P
    using assms(2) by (auto simp: tokensBound_def intro: list_all_updateFirst)
  with assms show ?thesis
    by (auto simp: logoutDevice_def Let_def save_def dbTokensBound_def list_all_iff
        split: option.splits prod.splits)
qed

lemma logoutAllDevices_bound:
  assumes "dbTokensBound db"
  shows "tokensBound (fst (logoutAllDevices env now doc db)) \<and>
         dbTokensBound (snd (logoutAllDevices env now doc db))"
proof -
  have t: "tokensBound (doc\<lparr>loggedInDevices := map (closeDevice now) (loggedInDevices doc),
            refreshTokens := []\<rparr>)"
    by (simp add: tokensBound_def list_all_iff)
  with assms show ?thesis
    by (simp add: logoutAllDevices_def save_bound)
qed

lemma login_bound:
  assumes "dbTokensBound db"
  shows "dbTokensBound (snd (login env now db loginId pw devId ip ua))"
proof (cases "resolveLogin env db loginId")
  case None
  with assms show ?thesis by (simp add: login_def)
next
  case (Some ul)
  then have "\<exists>P. find P (userLogins db) = Some ul"
    by (auto simp: query_defs split: option.splits)
  with assms have b: "tokensBound ul" by (auto dest: find_bound)
  then have f: "tokensBound (recordFailedAttempt now ul)"
    by (simp add: tokensBound_def recordFailedAttempt_def Let_def)
  let ?ul1 = "ul\<lparr>failedLoginAttempts := 0, lockLevel := 0, lockUntil := None,
                 isLoggedIn := True, lastLogin := Some now\<rparr>"
  from b have "tokensBound ?ul1" by (simp add: tokensBound_def)
  then have "tokensBound (fst (snd (generateRefreshToken env now ?ul1 devId ip ua db)))"
    by (rule generateRefreshToken_bound)
  with assms have "dbTokensBound (snd (snd (generateRefreshToken env now ?ul1 devId ip ua db)))"
    by (subst generateRefreshToken_db) (rule save_bound)
  with Some assms f show ?thesis
    by (auto simp: login_def Let_def save_bound case_prod_beta split: option.splits)
qed

lemma refresh_bound:
  assumes "dbTokensBound db"
  shows "dbTokensBound (snd (refresh env now db tok devId))"
proof -
  have "dbTokensBound (snd (snd (generateRefreshToken env now ul devId None None db)))"
    if "findUserLoginById db i = Some ul" for i ul
  proof -
    from that assms have "tokensBound ul" by (auto simp: query_defs dest: find_bound)
    then have "tokensBound (fst (snd (generateRefreshToken env now ul devId None None db)))"
      by (rule generateRefreshToken_bound)
    with assms show ?thesis by (subst generateRefreshToken_db) (rule save_bound)
  qed
  with assms show ?thesis
    by (auto simp: refresh_def Let_def case_prod_beta split: sum.splits jwtError.splits option.splits)
qed

lemma logout_bound:
  assumes "dbTokensBound db"
  shows "dbTokensBound (snd (logout env now db uid devId))"
proof (cases "findUserLoginByUser db uid")
  case None
  with assms show ?thesis by (simp add: logout_def)
next
  case (Some ul)
  with assms have "tokensBound ul" by (auto simp: query_defs dest: find_bound)
  with assms have l: "tokensBound (fst (snd (logoutDevice env now ul devId db)))"
    "dbTokensBound (snd (snd (logoutDevice env now ul devId db)))"
    using logoutDevice_bound by blast+
  from l(1) have "tokensBound ((fst (snd (logoutDevice env now ul devId db)))\<lparr>isLoggedIn := False\<rparr>)"
    by (simp add: tokensBound_def)
  with Some l show ?thesis
    by (auto simp: logout_def Let_def save_bound case_prod_beta)
qed

lemma logoutAll_bound:
  assumes "dbTokensBound db"
  shows "dbTokensBound (snd (logoutAll env now db uid))"
proof (cases "findUserLoginByUser db uid")
  case None
  with assms show ?thesis by (simp add: logoutAll_def)
next
  case (Some ul)
  from assms have l: "tokensBound (fst (logoutAllDevices env now ul db))"
    "dbTokensBound (snd (logoutAllDevices env now ul db))"
    using logoutAllDevices_bound by blast+
  from l(1) have "tokensBound ((fst (logoutAllDevices env now ul db))\<lparr>isLoggedIn := False\<rparr>)"
    by (simp add: tokensBound_def)
  with Some l show ?thesis
    by (auto simp: logoutAll_def Let_def save_bound case_prod_beta)
qed

lemma lockAccount_bound:
  assumes "dbTokensBound db"
  shows "dbTokensBound (snd (lockAccount env now db uid reason))"
proof (cases "findUserLoginByUser db uid")
  case None
  with assms show ?thesis by (simp add: lockAccount_def)
next
  case (Some ul)
  let ?ul = "ul\<lparr>isPermanentlyLocked := True, isLoggedIn := False\<rparr>"
  from assms have l: "tokensBound (fst (logoutAllDevices env now ?ul db))"
    "dbTokensBound (snd (logoutAllDevices env now ?ul db))"
    using logoutAllDevices_bound by blast+
  with Some show ?thesis
    by (auto simp: lockAccount_def Let_def save_bound case_prod_beta)
qed

lemma unlockAccount_bound:
  assumes "dbTokensBound db"
  shows "dbTokensBound (snd (unlockAccount env db uid))"
proof (cases "findUserLoginByUser db uid")
  case None
  with assms show ?thesis by (simp add: unlockAccount_def)
next
  case (Some ul)
  with assms have "tokensBound ul" by (auto simp: query_defs dest: find_bound)
  then have "tokensBound (ul\<lparr>isPermanentlyLocked := False, failedLoginAttempts := 0, lockLevel := 0,
                      lockUntil := None\<rparr>)"
    by (simp add: tokensBound_def)
  with Some assms show ?thesis
    by (simp add: unlockAccount_def save_bound)
qed

lemma changePassword_bound:
  assumes "dbTokensBound db"
  shows "dbTokensBound (snd (changePassword env now db uid oldPassword newPassword))"
proof (cases "findUserLoginByUser db uid")
  case None
  with assms show ?thesis by (simp add: changePassword_def)
next
  case (Some ul)
  with assms have "tokensBound ul" by (auto simp: query_defs dest: find_bound)
  then have "tokensBound (ul\<lparr>password := newPassword\<rparr>)" by (simp add: tokensBound_def)
  with assms have d1: "dbTokensBound (snd (save env (newPassword \<noteq> password ul) (ul\<lparr>password := newPassword\<rparr>) db))"
    by (rule save_bound)
  let ?ul1 = "fst (save env (newPassword \<noteq> password ul) (ul\<lparr>password := newPassword\<rparr>) db)"
  let ?db1 = "snd (save env (newPassword \<noteq> password ul) (ul\<lparr>password := newPassword\<rparr>) db)"
  from d1 have l: "tokensBound (fst (logoutAllDevices env now ?ul1 ?db1))"
    "dbTokensBound (snd (logoutAllDevices env now ?ul1 ?db1))"
    using logoutAllDevices_bound by blast+
  from l(1) have "tokensBound ((fst (logoutAllDevices env now ?ul1 ?db1))\<lparr>isLoggedIn := False\<rparr>)"
    by (simp add: tokensBound_def)
  with Some assms l show ?thesis
    by (auto simp: changePassword_def Let_def save_bound case_prod_beta)
qed

text \<open>
  C3, as amended. If every device's non-null \<^verbatim>\<open>refreshToken\<close> is the token of an entry
  of its record's \<^verbatim>\<open>refreshTokens\<close>, then the same holds after \<open>login\<close>,
  \<open>refresh\<close>, \<open>logout\<close>, \<open>logoutAll\<close>, \<open>changePassword\<close>, \<open>lockAccount\<close> and
  \<open>unlockAccount\<close>, whatever their arguments and whether they succeed or fail.
\<close>

theorem token_invariant_preserved:
  assumes "dbTokensBound db"
  shows "dbTokensBound (snd (login env now db loginId pw devId ip ua)) \<and>
         dbTokensBound (snd (refresh env now db tok devId)) \<and>
         dbTokensBound (snd (logout env now db uid devId)) \<and>
         dbTokensBound (snd (logoutAll env now db uid)) \<and>
         dbTokensBound (snd (changePassword env now db uid oldPassword newPassword)) \<and>
         dbTokensBound (snd (lockAccount env now db uid reason)) \<and>
         dbTokensBound (snd (unlockAccount env db uid))"
  using assms
  by (intro conjI login_bound refresh_bound logout_bound logoutAll_bound changePassword_bound
      lockAccount_bound unlockAccount_bound)

theorem token_invariant_preserved_witness:
  "dbTokensBound loggedInDb \<and>
   dbTokensBound (snd (refresh sampleEnv 2500 loggedInDb ''ru.s'' (Some ''dev-A''))) \<and>
   dbTokensBound (snd (logout sampleEnv 2500 loggedInDb 1 (Some ''dev-A'')))"
proof -
  have h: "dbTokensBound loggedInDb"
    by (simp add: sample_defs loggedInDb_def dbTokensBound_def tokensBound_def tokenListed_def)
  from token_invariant_preserved[OF h, of sampleEnv 2500 _ _ "Some ''dev-A''" _ _ "''ru.s''" 1] h
  show ?thesis by simp
qed

text \<open>
  C3 as stated fails for \<open>revokeToken\<close>: revoking the token that \<open>dev-A\<close> holds
  removes its entry from \<^verbatim>\<open>refreshTokens\<close> and leaves it on the device.
\<close>

theorem revoke_breaks_token_invariant_counterexample:
  "dbTokensBound loggedInDb \<and>
   \<not> dbTokensBound (snd (revokeToken sampleEnv loggedInDb 1 ''ru.s''))"
  by (simp add: revokeToken_def sample_defs loggedInDb_def dbTokensBound_def tokensBound_def tokenListed_def query_defs method_defs)

section \<open>Revocation\<close>

text \<open>
  What \<open>revokeRefreshToken\<close> does to the record, for every record and token: it
  keeps the entries whose token differs, leaves the devices alone, and returns
  \<^verbatim>\<open>true\<close>; so the service never answers "Token not found".
\<close>

lemma revokeRefreshToken_effect:
  "fst (revokeRefreshToken env doc tok db) = True \<and>
   refreshTokens (fst (snd (revokeRefreshToken env doc tok db))) =
     filter (\<lambda>rt. token rt \<noteq> tok) (refreshTokens doc) \<and>
   loggedInDevices (fst (snd (revokeRefreshToken env doc tok db))) = loggedInDevices doc"
  by (simp add: revokeRefreshToken_def Let_def case_prod_beta)

lemma revokeToken_never_TokenNotFound:
  "fst (revokeToken env db uid tok) \<noteq> Inl TokenNotFound"
  by (simp add: revokeToken_def revokeRefreshToken_def Let_def case_prod_beta split: option.splits)

text \<open>
  C4, at a token that no entry of \<^verbatim>\<open>refreshTokens\<close> carries: the method returns
  \<^verbatim>\<open>true\<close> and the service reports success, leaving the database as it was.
\<close>

theorem revoke_unmatched_token_returns_true:
  "filter (\<lambda>rt. token rt = ''no-such-token'') (concat (map refreshTokens (userLogins loggedInDb))) = [] \<and>
   fst (revokeRefreshToken sampleEnv (hd (userLogins loggedInDb)) ''no-such-token'' loggedInDb) = True \<and>
   revokeToken sampleEnv loggedInDb 1 ''no-such-token'' = (Inr (), loggedInDb)"
  by (simp add: revokeToken_def sample_defs loggedInDb_def query_defs method_defs)

section \<open>Logging out of every device\<close>

lemma save_snd_idem:
  "snd (save env False (preSaveHook env m d) (snd (save env m d db))) = snd (save env m d db)"
  by (simp add: save_def Let_def comp_def cong: if_cong)

lemma logoutAllDevices_fst:
  "fst (logoutAllDevices env now doc db) =
     doc\<lparr>loggedInDevices := map (closeDevice now) (loggedInDevices doc), refreshTokens := []\<rparr>"
  by (simp add: logoutAllDevices_def)

lemma logoutAllDevices_snd:
  "snd (logoutAllDevices env now doc db) = snd (save env False (fst (logoutAllDevices env now doc db)) db)"
  by (simp add: logoutAllDevices_def)

lemma no_token_no_verify:
  assumes "list_all (\<lambda>d. refreshToken d = None) (loggedInDevices doc)"
  shows "\<not> verifyRefreshTokenForDevice doc tok devId"
proof
  assume "verifyRefreshTokenForDevice doc tok devId"
  then obtain did dev where "find (\<lambda>d. deviceId d = did) (loggedInDevices doc) = Some dev"
    "refreshToken dev = Some tok"
    unfolding verifyRefreshTokenForDevice_iff by blast
  then have "dev \<in> set (loggedInDevices doc)" "refreshToken dev = Some tok"
    by (auto simp: find_Some_iff)
  with assms show False by (auto simp: list_all_iff)
qed

lemma closed_devices: "list_all (\<lambda>d. refreshToken d = None) (map (closeDevice now) devs)"
  by (simp add: list_all_iff closeDevice_def)

lemma twoDeviceDb_by_login:
  "snd (login sampleEnv 2000 loggedInDb ''alice'' ''p@ss1'' (Some ''dev-B'') (Some ''10.0.0.7'') None)
     = twoDeviceDb"
  by (simp add: login_def sample_defs loggedInDb_def twoDeviceDb_def query_defs method_defs eval_nat_numeral)

text \<open>
  C6, as amended. When the record exists and the old password verifies,
  \<open>changePassword\<close> succeeds; the stored secret becomes the hash of the new password
  when the new password differs from the stored string, and is left as it is
  otherwise; in every case every device is kept with its
  \<^verbatim>\<open>refreshToken\<close> cleared; \<^verbatim>\<open>refreshTokens\<close> is empty; \<^verbatim>\<open>isLoggedIn\<close> is false; and
  no token verifies for any device id, the calling device's included.
\<close>

theorem changePassword_invalidates_sessions:
  assumes f: "findUserLoginByUser db uid = Some ul"
    and p: "comparePassword env ul oldPassword"
  shows "\<exists>db' ul'. changePassword env now db uid oldPassword newPassword = (Inr (), db') \<and>
           findUserLoginByUser db' uid = Some ul' \<and>
           password ul' =
             (if newPassword = password ul then password ul else bcryptHash env newPassword) \<and>
           list_all (\<lambda>d. refreshToken d = None) (loggedInDevices ul') \<and>
           length (loggedInDevices ul') = length (loggedInDevices ul) \<and>
           refreshTokens ul' = [] \<and> \<not> isLoggedIn ul' \<and>
           (\<forall>tok devId. \<not> verifyRefreshTokenForDevice ul' tok devId)"
proof -
  let ?m = "newPassword \<noteq> password ul"
  let ?ul1 = "preSaveHook env ?m (ul\<lparr>password := newPassword\<rparr>)"
  let ?db1 = "snd (save env ?m (ul\<lparr>password := newPassword\<rparr>) db)"
  let ?ul2 = "fst (logoutAllDevices env now ?ul1 ?db1)"
  let ?db2 = "snd (logoutAllDevices env now ?ul1 ?db1)"
  let ?ul3 = "?ul2\<lparr>isLoggedIn := False\<rparr>"
  let ?db3 = "snd (save env False ?ul3 ?db2)"
  have res: "changePassword env now db uid oldPassword newPassword = (Inr (), ?db3)"
    using f p by (simp add: changePassword_def Let_def case_prod_beta)
  have f1: "findUserLoginByUser ?db1 uid = Some ?ul1"
    using findUserLoginByUser_save[OF f, of "ul\<lparr>password := newPassword\<rparr>" env ?m] by simp
  have f2: "findUserLoginByUser ?db2 uid = Some ?ul2"
    unfolding logoutAllDevices_snd
    using findUserLoginByUser_save[OF f1, of ?ul2 env False] by (simp add: logoutAllDevices_fst)
  have f3: "findUserLoginByUser ?db3 uid = Some ?ul3"
    using findUserLoginByUser_save[OF f2, of ?ul3 env False] by simp
  have pw: "password ?ul3 =
      (if newPassword = password ul then password ul else bcryptHash env newPassword)"
    by (simp add: logoutAllDevices_fst preSaveHook_def)
  have dv: "loggedInDevices ?ul3 = map (closeDevice now) (loggedInDevices ul)"
    by (simp add: logoutAllDevices_fst)
  have cl: "list_all (\<lambda>d. refreshToken d = None) (loggedInDevices ?ul3)"
    unfolding dv by (rule closed_devices)
  have ln: "length (loggedInDevices ?ul3) = length (loggedInDevices ul)"
    unfolding dv by simp
  have rt: "refreshTokens ?ul3 = []" "\<not> isLoggedIn ?ul3"
    by (simp_all add: logoutAllDevices_fst)
  have nv: "\<forall>tok devId. \<not> verifyRefreshTokenForDevice ?ul3 tok devId"
    using no_token_no_verify[OF cl] by blast
  from res f3 pw cl ln rt nv show ?thesis by blast
qed

theorem changePassword_invalidates_sessions_witness:
  "fst (changePassword sampleEnv 5000 twoDeviceDb 1 ''p@ss1'' ''n3w-p@ss'') = Inr () \<and>
   (\<exists>ul'. findUserLoginByUser (snd (changePassword sampleEnv 5000 twoDeviceDb 1 ''p@ss1'' ''n3w-p@ss'')) 1
         = Some ul' \<and>
      password ul' = ''$2a$n3w-p@ss'' \<and>
      list_all (\<lambda>d. refreshToken d = None) (loggedInDevices ul') \<and>
      length (loggedInDevices ul') = 2 \<and> refreshTokens ul' = [] \<and> \<not> isLoggedIn ul' \<and>
      \<not> verifyRefreshTokenForDevice ul' ''ru.s'' (Some ''dev-A'') \<and>
      \<not> verifyRefreshTokenForDevice ul' ''ru.ss'' (Some ''dev-B''))"
proof -
  have f: "findUserLoginByUser twoDeviceDb 1 = Some (hd (userLogins twoDeviceDb))"
    by (simp add: sample_defs twoDeviceDb_def query_defs)
  have p: "comparePassword sampleEnv (hd (userLogins twoDeviceDb)) ''p@ss1''"
    by (simp add: sample_defs twoDeviceDb_def method_defs)
  have h: "(if ''n3w-p@ss'' = password (hd (userLogins twoDeviceDb))
            then password (hd (userLogins twoDeviceDb))
            else bcryptHash sampleEnv ''n3w-p@ss'') = ''$2a$n3w-p@ss''"
    by (simp add: sample_defs twoDeviceDb_def)
  have n: "length (loggedInDevices (hd (userLogins twoDeviceDb))) = 2"
    by (simp add: sample_defs twoDeviceDb_def)
  from changePassword_invalidates_sessions[OF f p, of 5000 "''n3w-p@ss''"] h n
  show ?thesis by auto
qed

text \<open>
  C6 as stated fails on the secret: when the new password is, character for
  character, the stored hash string, the assignment does not modify the path, the save
  hook returns at once, and the call succeeds with the stored hash as it was; the old
  password still verifies.
\<close>

theorem changePassword_same_string_counterexample:
  "fst (changePassword sampleEnv 5000 twoDeviceDb 1 ''p@ss1'' ''$2a$p@ss1'') = Inr () \<and>
   map_option password (findUserLoginByUser twoDeviceDb 1) = Some ''$2a$p@ss1'' \<and>
   map_option password
     (findUserLoginByUser
        (snd (changePassword sampleEnv 5000 twoDeviceDb 1 ''p@ss1'' ''$2a$p@ss1'')) 1)
     = Some ''$2a$p@ss1'' \<and>
   map_option (\<lambda>ul. comparePassword sampleEnv ul ''p@ss1'')
     (findUserLoginByUser
        (snd (changePassword sampleEnv 5000 twoDeviceDb 1 ''p@ss1'' ''$2a$p@ss1'')) 1)
     = Some True"
  by (simp add: changePassword_def sample_defs twoDeviceDb_def query_defs method_defs)

section \<open>Administrative lock\<close>

lemma closeLastLogin_idem:
  "closeLastLogin t2 (closeLastLogin t1 h) = closeLastLogin t1 h"
  by (simp add: closeLastLogin_def Let_def)

lemma closeDevice_idem: "closeDevice t2 (closeDevice t1 d) = closeDevice t1 d"
  by (simp add: closeDevice_def closeLastLogin_idem)

lemma closeDevice_comp: "closeDevice t2 \<circ> closeDevice t1 = closeDevice t1"
  by (simp add: fun_eq_iff closeDevice_idem)

lemma login_permanently_locked:
  "resolveLogin env db loginId = Some ul \<Longrightarrow> isPermanentlyLocked ul \<Longrightarrow>
   login env now db loginId pw devId ip ua = (Inl AccountLockedPermanent, db)"
  by (simp add: login_def)

text \<open>
  C10. \<open>lockAccount\<close> on an existing record, whatever its devices and lock state,
  succeeds and leaves \<^verbatim>\<open>isPermanentlyLocked\<close> true and every device's
  \<^verbatim>\<open>refreshToken\<close> cleared; locking again, at any time and for any reason, leaves the
  database as the first lock left it; and every login whose login id resolves to the
  record is then denied with \<open>AccountLockedPermanent\<close>, whatever the password.
\<close>

theorem lockAccount_locks_and_logs_out:
  assumes f: "findUserLoginByUser db uid = Some ul"
  shows "\<exists>db1 ul1. lockAccount env now db uid reason =
             (Inr (''Account locked. Reason: '' @ reason), db1) \<and>
           findUserLoginByUser db1 uid = Some ul1 \<and>
           isPermanentlyLocked ul1 \<and>
           list_all (\<lambda>d. refreshToken d = None) (loggedInDevices ul1) \<and>
           length (loggedInDevices ul1) = length (loggedInDevices ul) \<and>
           (\<forall>now' reason'. snd (lockAccount env now' db1 uid reason') = db1) \<and>
           (\<forall>loginId t pw devId ip ua. resolveLogin env db loginId = Some ul \<longrightarrow>
              login env t db1 loginId pw devId ip ua = (Inl AccountLockedPermanent, db1)) \<and>
           (\<forall>loginId t pw devId ip ua. resolveLogin env db1 loginId = Some ul1 \<longrightarrow>
              login env t db1 loginId pw devId ip ua = (Inl AccountLockedPermanent, db1))"
proof -
  let ?ul0 = "ul\<lparr>isPermanentlyLocked := True, isLoggedIn := False\<rparr>"
  let ?ul1 = "?ul0\<lparr>loggedInDevices := map (closeDevice now) (loggedInDevices ul), refreshTokens := []\<rparr>"
  let ?db1 = "snd (save env False ?ul1 db)"
  have lock: "lockAccount env now' d uid reason' =
      (Inr (''Account locked. Reason: '' @ reason'),
       snd (save env False
          (u\<lparr>isPermanentlyLocked := True, isLoggedIn := False,
             loggedInDevices := map (closeDevice now') (loggedInDevices u), refreshTokens := []\<rparr>) d))"
    if "findUserLoginByUser d uid = Some u" for now' d reason' u
    using that save_snd_idem[of env False _ d]
    by (simp add: lockAccount_def Let_def case_prod_beta logoutAllDevices_def)
  have res: "lockAccount env now db uid reason = (Inr (''Account locked. Reason: '' @ reason), ?db1)"
    using lock[OF f] by simp
  have f1: "findUserLoginByUser ?db1 uid = Some ?ul1"
    using findUserLoginByUser_save[OF f, of ?ul1 env False] by simp
  have same: "?ul1\<lparr>isPermanentlyLocked := True, isLoggedIn := False,
       loggedInDevices := map (closeDevice now') (loggedInDevices ?ul1), refreshTokens := []\<rparr> = ?ul1"
    for now'
    by (simp add: closeDevice_comp)
  have idem: "snd (lockAccount env now' ?db1 uid reason') = ?db1" for now' reason'
    using lock[OF f1, of now' reason'] save_snd_idem[of env False ?ul1 db]
    by (simp add: same closeDevice_comp)
  have cl: "list_all (\<lambda>d. refreshToken d = None) (loggedInDevices ?ul1)"
    using closed_devices[of now "loggedInDevices ul"] by simp
  have denied: "login env t ?db1 loginId pw devId ip ua = (Inl AccountLockedPermanent, ?db1)"
    if "resolveLogin env db loginId = Some ul" for loginId t pw devId ip ua
  proof -
    from resolveLogin_save[OF that, of ?ul1 False]
    have "resolveLogin env ?db1 loginId = Some ?ul1" by simp
    then show ?thesis by (rule login_permanently_locked) simp
  qed
  have denied': "login env t ?db1 loginId pw devId ip ua = (Inl AccountLockedPermanent, ?db1)"
    if "resolveLogin env ?db1 loginId = Some ?ul1" for loginId t pw devId ip ua
    using that by (rule login_permanently_locked) simp
  have "isPermanentlyLocked ?ul1" "length (loggedInDevices ?ul1) = length (loggedInDevices ul)"
    by simp_all
  with res f1 cl idem denied denied' show ?thesis by blast
qed

theorem lockAccount_locks_and_logs_out_witness:
  "fst (lockAccount sampleEnv 9000 twoDeviceDb 1 ''policy violation'') =
     Inr ''Account locked. Reason: policy violation'' \<and>
   (\<exists>ul1. findUserLoginByUser (snd (lockAccount sampleEnv 9000 twoDeviceDb 1 ''policy violation'')) 1
         = Some ul1 \<and>
      isPermanentlyLocked ul1 \<and>
      list_all (\<lambda>d. refreshToken d = None) (loggedInDevices ul1) \<and>
      length (loggedInDevices ul1) = 2) \<and>
   snd (lockAccount sampleEnv 9500
          (snd (lockAccount sampleEnv 9000 twoDeviceDb 1 ''policy violation'')) 1 ''again'') =
     snd (lockAccount sampleEnv 9000 twoDeviceDb 1 ''policy violation'') \<and>
   login sampleEnv 9900 (snd (lockAccount sampleEnv 9000 twoDeviceDb 1 ''policy violation''))
       ''alice'' ''p@ss1'' (Some ''dev-A'') None None =
     (Inl AccountLockedPermanent, snd (lockAccount sampleEnv 9000 twoDeviceDb 1 ''policy violation''))"
proof -
  have f: "findUserLoginByUser twoDeviceDb 1 = Some (hd (userLogins twoDeviceDb))"
    by (simp add: sample_defs twoDeviceDb_def query_defs)
  have r: "resolveLogin sampleEnv twoDeviceDb ''alice'' = Some (hd (userLogins twoDeviceDb))"
    by (simp add: sample_defs twoDeviceDb_def query_defs)
  have n: "length (loggedInDevices (hd (userLogins twoDeviceDb))) = 2"
    by (simp add: sample_defs twoDeviceDb_def)
  from lockAccount_locks_and_logs_out[OF f, of sampleEnv 9000 "''policy violation''"] r n
  show ?thesis by auto
qed

end
